theory Spec2Isabelle
  imports Complex_Main "HOL-Library.Word"
begin

section \<open>Numbers\<close>

text \<open>
  A JavaScript number is an IEEE 754 double: a finite value (kept as the rational it
  denotes), negative zero, an infinity or \<^verbatim>\<open>NaN\<close>. Every arithmetic result is rounded to the
  nearest double, ties to even, as the language prescribes. A number literal is kept as
  the rational it is written as, and stands for the double nearest to it.
\<close>

datatype double = Num rat | NegZero | PosInf | NegInf | NaN

fun ilog2 :: "nat \<Rightarrow> nat" where
  "ilog2 n = (if n < 2 then 0 else Suc (ilog2 (n div 2)))"

definition pow2 :: "int \<Rightarrow> rat" where
  "pow2 e = (if 0 \<le> e then 2 ^ nat e else 1 / 2 ^ nat (- e))"

text \<open>The binary exponent of a positive rational \<open>x\<close>: the \<open>e\<close> with \<open>2^e \<le> x < 2^(e+1)\<close>.\<close>

definition exponent :: "rat \<Rightarrow> int" where
  "exponent x =
     (if 1 \<le> x then int (ilog2 (nat \<lfloor>x\<rfloor>))
      else - int (if \<lceil>1 / x\<rceil> \<le> 1 then 0 else Suc (ilog2 (nat (\<lceil>1 / x\<rceil> - 1)))))"

definition round_even :: "rat \<Rightarrow> int" where
  "round_even r =
     (let f = \<lfloor>r\<rfloor>; d = r - of_int f in
      if d < 1 / 2 then f else if 1 / 2 < d then f + 1 else if even f then f else f + 1)"

text \<open>
  Rounding a positive rational to 53 significant bits; below the normal range the
  spacing is that of the subnormal numbers.
\<close>

definition round_magnitude :: "rat \<Rightarrow> rat" where
  "round_magnitude x =
     (let q = pow2 (max (exponent x) (- 1022) - 52) in of_int (round_even (x / q)) * q)"

definition round_double :: "rat \<Rightarrow> double" where
  "round_double x =
     (if x = 0 then Num 0
      else let y = round_magnitude \<bar>x\<bar> in
        if pow2 1024 \<le> y then (if 0 < x then PosInf else NegInf)
        else if y = 0 then (if 0 < x then Num 0 else NegZero)
        else Num (if 0 < x then y else - y))"

text \<open>The double a number stands for.\<close>

definition nearest :: "double \<Rightarrow> double" where
  "nearest d = (case d of Num x \<Rightarrow> round_double x | _ \<Rightarrow> d)"

fun finite_value :: "double \<Rightarrow> rat option" where
  "finite_value (Num x) = Some x"
| "finite_value NegZero = Some 0"
| "finite_value d = None"

fun negative :: "double \<Rightarrow> bool" where
  "negative (Num x) = (x < 0)"
| "negative NegZero = True"
| "negative NegInf = True"
| "negative d = False"

definition signed_zero :: "bool \<Rightarrow> double" where
  "signed_zero neg = (if neg then NegZero else Num 0)"

definition signed_infinity :: "bool \<Rightarrow> double" where
  "signed_infinity neg = (if neg then NegInf else PosInf)"

text \<open>\<^verbatim>\<open>x === 0\<close>, true of both zeros.\<close>

definition is_zero :: "double \<Rightarrow> bool" where
  "is_zero d = (finite_value (nearest d) = Some 0)"

text \<open>\<^verbatim>\<open>x > 0\<close>\<close>

definition positive :: "double \<Rightarrow> bool" where
  "positive d = (case nearest d of Num x \<Rightarrow> 0 < x | PosInf \<Rightarrow> True | _ \<Rightarrow> False)"

text \<open>The sum, product and quotient of two doubles.\<close>

definition add_doubles :: "double \<Rightarrow> double \<Rightarrow> double" where
  "add_doubles a b =
     (if a = NaN \<or> b = NaN then NaN
      else case (finite_value a, finite_value b) of
        (Some x, Some y) \<Rightarrow>
          if a = NegZero \<and> b = NegZero then NegZero
          else if x + y = 0 then Num 0 else round_double (x + y)
      | (Some x, None) \<Rightarrow> b
      | (None, Some y) \<Rightarrow> a
      | (None, None) \<Rightarrow> if a = b then a else NaN)"

definition multiply_doubles :: "double \<Rightarrow> double \<Rightarrow> double" where
  "multiply_doubles a b =
     (if a = NaN \<or> b = NaN then NaN
      else case (finite_value a, finite_value b) of
        (Some x, Some y) \<Rightarrow>
          if x * y = 0 then signed_zero (negative a \<noteq> negative b) else round_double (x * y)
      | (Some x, None) \<Rightarrow>
          if x = 0 then NaN else signed_infinity (negative a \<noteq> negative b)
      | (None, Some y) \<Rightarrow>
          if y = 0 then NaN else signed_infinity (negative a \<noteq> negative b)
      | (None, None) \<Rightarrow> signed_infinity (negative a \<noteq> negative b))"

definition divide_doubles :: "double \<Rightarrow> double \<Rightarrow> double" where
  "divide_doubles a b =
     (if a = NaN \<or> b = NaN then NaN
      else case (finite_value a, finite_value b) of
        (Some x, Some y) \<Rightarrow>
          if y = 0 then (if x = 0 then NaN else signed_infinity (negative a \<noteq> negative b))
          else if x = 0 then signed_zero (negative a \<noteq> negative b)
          else round_double (x / y)
      | (Some x, None) \<Rightarrow> signed_zero (negative a \<noteq> negative b)
      | (None, Some y) \<Rightarrow> signed_infinity (negative a \<noteq> negative b)
      | (None, None) \<Rightarrow> NaN)"

text \<open>\<^verbatim>\<open>a + b\<close>, \<^verbatim>\<open>a * b\<close> and \<^verbatim>\<open>a / b\<close> on numbers.\<close>

definition dadd :: "double \<Rightarrow> double \<Rightarrow> double" where
  "dadd a b = add_doubles (nearest a) (nearest b)"

definition dmul :: "double \<Rightarrow> double \<Rightarrow> double" where
  "dmul a b = multiply_doubles (nearest a) (nearest b)"

definition ddiv :: "double \<Rightarrow> double \<Rightarrow> double" where
  "ddiv a b = divide_doubles (nearest a) (nearest b)"

section \<open>JavaScript values, as the adapters see them\<close>

text \<open>
  Both adapters read provider payloads through \<^verbatim>\<open>await res.json()\<close>, whose static type is
  \<^verbatim>\<open>any\<close>: the code navigates them with property reads, optional chaining, truthiness
  tests and \<^verbatim>\<open>??\<close>. A payload is therefore an untyped JSON value, and what a read returns
  is a JSON value or \<^verbatim>\<open>undefined\<close> (\<open>None\<close>).

  Strings are byte strings (UTF-8). An object is the list of its own properties, in the
  order of their creation; a read returns the first entry of a key.
\<close>

datatype json =
    JNull
  | JBool bool
  | JNum double
  | JStr string
  | JArr "json list"
  | JObj "(string \<times> json) list"

type_synonym jsval = "json option"

text \<open>
  \<^verbatim>\<open>res.json()\<close> on a body: every number literal becomes the double nearest to it.
\<close>

fun parsed :: "json \<Rightarrow> json" where
  "parsed (JNum d) = JNum (nearest d)"
| "parsed (JArr xs) = JArr (map parsed xs)"
| "parsed (JObj kvs) = JObj (map (\<lambda>p. (fst p, parsed (snd p))) kvs)"
| "parsed v = v"

text \<open>
  The host: \<^verbatim>\<open>process.env\<close>, \<^verbatim>\<open>Date.now()\<close> (milliseconds), \<^verbatim>\<open>crypto.randomBytes\<close>, and
  the two conversions between numbers and their decimal text: \<^verbatim>\<open>Number::toString\<close> of a
  finite non-zero number, and \<^verbatim>\<open>StringToNumber\<close>.
\<close>

record host =
  META_APP_ID :: "string option"
  META_APP_SECRET :: "string option"
  date_now :: int
  randomBytes :: "nat \<Rightarrow> 8 word list"
  number_text :: "rat \<Rightarrow> string"
  string_number :: "string \<Rightarrow> double"

text \<open>
  Exceptions. \<^verbatim>\<open>PlatformError\<close> (imported from \<^verbatim>\<open>@/lib/utils/errors\<close>) is known by its
  constructor calls only: provider name, message and an optional raw payload. A
  \<open>TypeError\<close> is what the runtime throws on a property read of \<^verbatim>\<open>null\<close>/\<^verbatim>\<open>undefined\<close>,
  on iterating a non-iterable, on calling a non-function and on converting an object that
  has no callable \<^verbatim>\<open>toString\<close>; \<open>NetworkError\<close> is a rejected \<^verbatim>\<open>fetch\<close> or a body that is not
  JSON.
\<close>

datatype error =
    PlatformError string jsval jsval
  | TypeError
  | NetworkError

fun join :: "string \<Rightarrow> string list \<Rightarrow> string" where
  "join sep [] = []"
| "join sep [x] = x"
| "join sep (x # y # ys) = x @ sep @ join sep (y # ys)"

text \<open>
  \<^verbatim>\<open>ToPrimitive\<close> of a parsed object finds \<^verbatim>\<open>Object.prototype.toString\<close> unless the object
  has an own \<^verbatim>\<open>toString\<close> property, whose value, coming from JSON, is not callable: the
  conversion then throws. An array converts through \<^verbatim>\<open>join\<close>, which converts its elements.
\<close>

fun hostile :: "json \<Rightarrow> bool" where
  "hostile (JObj kvs) = (map_of kvs ''toString'' \<noteq> None)"
| "hostile (JArr xs) = list_ex hostile xs"
| "hostile v = False"

definition double_text :: "host \<Rightarrow> double \<Rightarrow> string" where
  "double_text h d =
     (case nearest d of
        Num x \<Rightarrow> if x = 0 then ''0'' else number_text h x
      | NegZero \<Rightarrow> ''0''
      | PosInf \<Rightarrow> ''Infinity''
      | NegInf \<Rightarrow> ''-Infinity''
      | NaN \<Rightarrow> ''NaN'')"

text \<open>The string of a value whose conversion does not throw.\<close>

fun json_text :: "host \<Rightarrow> json \<Rightarrow> string" where
  "json_text h JNull = ''null''"
| "json_text h (JBool b) = (if b then ''true'' else ''false'')"
| "json_text h (JNum d) = double_text h d"
| "json_text h (JStr s) = s"
| "json_text h (JArr xs) =
     join '','' (map (\<lambda>x. if x = JNull then [] else json_text h x) xs)"
| "json_text h (JObj kvs) = ''[object Object]''"

text \<open>\<^verbatim>\<open>ToString\<close>, as template literals, property keys and concatenation apply it.\<close>

definition json_string :: "host \<Rightarrow> json \<Rightarrow> error + string" where
  "json_string h j = (if hostile j then Inl TypeError else Inr (json_text h j))"

definition to_string :: "host \<Rightarrow> jsval \<Rightarrow> error + string" where
  "to_string h v = (case v of None \<Rightarrow> Inr ''undefined'' | Some j \<Rightarrow> json_string h j)"

text \<open>\<^verbatim>\<open>ToPrimitive\<close>: arrays and objects become their string.\<close>

definition to_primitive :: "host \<Rightarrow> json \<Rightarrow> error + json" where
  "to_primitive h j =
     (if hostile j then Inl TypeError
      else Inr (case j of
                  JArr xs \<Rightarrow> JStr (json_text h j)
                | JObj kvs \<Rightarrow> JStr (json_text h j)
                | _ \<Rightarrow> j))"

text \<open>\<^verbatim>\<open>ToNumber\<close> of a primitive; the last equation is for completeness.\<close>

fun primitive_number :: "host \<Rightarrow> json \<Rightarrow> double" where
  "primitive_number h JNull = Num 0"
| "primitive_number h (JBool b) = Num (if b then 1 else 0)"
| "primitive_number h (JNum d) = d"
| "primitive_number h (JStr s) = string_number h s"
| "primitive_number h v = NaN"

text \<open>\<^verbatim>\<open>ToNumber\<close>\<close>

definition to_number :: "host \<Rightarrow> json \<Rightarrow> error + double" where
  "to_number h j =
     (case to_primitive h j of Inl e \<Rightarrow> Inl e | Inr p \<Rightarrow> Inr (primitive_number h p))"

fun is_string :: "json \<Rightarrow> bool" where
  "is_string (JStr s) = True"
| "is_string v = False"

text \<open>
  The binary \<^verbatim>\<open>+\<close> on two values that are not \<^verbatim>\<open>undefined\<close>: both operands are made
  primitive; the result is the concatenation of their strings once either is a string,
  and the sum of their numbers otherwise.
\<close>

definition js_add :: "host \<Rightarrow> json \<Rightarrow> json \<Rightarrow> error + json" where
  "js_add h a b =
     (case to_primitive h a of
        Inl e \<Rightarrow> Inl e
      | Inr pa \<Rightarrow>
          (case to_primitive h b of
             Inl e \<Rightarrow> Inl e
           | Inr pb \<Rightarrow>
               Inr (if is_string pa \<or> is_string pb
                    then JStr (json_text h pa @ json_text h pb)
                    else JNum (dadd (primitive_number h pa) (primitive_number h pb)))))"

text \<open>\<^verbatim>\<open>v > 0\<close>\<close>

definition js_gt_zero :: "host \<Rightarrow> json \<Rightarrow> error + bool" where
  "js_gt_zero h v = (case to_number h v of Inl e \<Rightarrow> Inl e | Inr d \<Rightarrow> Inr (positive d))"

fun json_truthy :: "json \<Rightarrow> bool" where
  "json_truthy JNull = False"
| "json_truthy (JBool b) = b"
| "json_truthy (JNum d) = (d \<noteq> NaN \<and> \<not> is_zero d)"
| "json_truthy (JStr s) = (s \<noteq> [])"
| "json_truthy (JArr xs) = True"
| "json_truthy (JObj kvs) = True"

definition truthy :: "jsval \<Rightarrow> bool" where
  "truthy v = (case v of None \<Rightarrow> False | Some j \<Rightarrow> json_truthy j)"

definition nullish :: "jsval \<Rightarrow> bool" where
  "nullish v = (v = None \<or> v = Some JNull)"

text \<open>\<^verbatim>\<open>a ?? b\<close>, and \<^verbatim>\<open>a ?? d\<close> for a literal \<open>d\<close>.\<close>

definition coalesce :: "jsval \<Rightarrow> jsval \<Rightarrow> jsval" where
  "coalesce a b = (if nullish a then b else a)"

definition default_to :: "jsval \<Rightarrow> json \<Rightarrow> json" where
  "default_to a d = (case a of None \<Rightarrow> d | Some j \<Rightarrow> if j = JNull then d else j)"

text \<open>
  A property read \<^verbatim>\<open>v.k\<close> of a value that is neither \<^verbatim>\<open>null\<close> nor \<^verbatim>\<open>undefined\<close>. The
  keys the adapters read are fixed names, none of which is a built-in property of
  strings, numbers, booleans or plain objects. On an array the one exception is
  \<^verbatim>\<open>values\<close> (a method): the adapters read it only as \<^verbatim>\<open>item.values?.[0]?.value\<close>, which
  is \<^verbatim>\<open>undefined\<close> for a method as it is for an absent property.
\<close>

fun read_prop :: "json \<Rightarrow> string \<Rightarrow> jsval" where
  "read_prop (JObj kvs) k = map_of kvs k"
| "read_prop v k = None"

text \<open>\<^verbatim>\<open>v.k\<close>\<close>

definition get :: "jsval \<Rightarrow> string \<Rightarrow> error + jsval" where
  "get v k =
     (case v of None \<Rightarrow> Inl TypeError
      | Some j \<Rightarrow> if j = JNull then Inl TypeError else Inr (read_prop j k))"

text \<open>\<^verbatim>\<open>v?.k\<close>\<close>

definition opt_get :: "jsval \<Rightarrow> string \<Rightarrow> jsval" where
  "opt_get v k = (case v of None \<Rightarrow> None | Some j \<Rightarrow> read_prop j k)"

text \<open>\<^verbatim>\<open>v?.[0]\<close>: the first element of an array, the first character of a string, the
  property \<^verbatim>\<open>"0"\<close> of an object.\<close>

fun json_first :: "json \<Rightarrow> jsval" where
  "json_first (JArr xs) = (case xs of [] \<Rightarrow> None | x # _ \<Rightarrow> Some x)"
| "json_first (JStr s) = (case s of [] \<Rightarrow> None | c # _ \<Rightarrow> Some (JStr [c]))"
| "json_first (JObj kvs) = map_of kvs ''0''"
| "json_first v = None"

definition opt_first :: "jsval \<Rightarrow> jsval" where
  "opt_first v = (case v of None \<Rightarrow> None | Some j \<Rightarrow> json_first j)"

text \<open>\<^verbatim>\<open>for (const item of v)\<close>: arrays and strings are iterable, nothing else in JSON is.\<close>

fun iterate :: "json \<Rightarrow> error + json list" where
  "iterate (JArr xs) = Inr xs"
| "iterate (JStr s) = Inr (map (\<lambda>c. JStr [c]) s)"
| "iterate v = Inl TypeError"

text \<open>
  \<^verbatim>\<open>Object.values\<close> of an array or object. The properties of an object come with the array
  indices first (canonical decimal strings up to \<open>2^32 - 2\<close>), in ascending order, and
  then the other keys in the order of their creation.
\<close>

fun own_entries :: "(string \<times> json) list \<Rightarrow> (string \<times> json) list" where
  "own_entries [] = []"
| "own_entries ((k, v) # kvs) = (k, v) # own_entries (filter (\<lambda>p. fst p \<noteq> k) kvs)"

definition index_value :: "string \<Rightarrow> nat" where
  "index_value k = foldl (\<lambda>n c. 10 * n + (of_char c - 48)) 0 k"

definition array_index :: "string \<Rightarrow> bool" where
  "array_index k =
     (k \<noteq> [] \<and> list_all (\<lambda>c. (48::nat) \<le> of_char c \<and> of_char c \<le> (57::nat)) k
      \<and> (k = ''0'' \<or> hd k \<noteq> CHR ''0'') \<and> index_value k \<le> 4294967294)"

fun Object_values :: "json \<Rightarrow> json list" where
  "Object_values (JArr xs) = xs"
| "Object_values (JObj kvs) =
     map snd (sort_key (\<lambda>p. index_value (fst p)) (filter (\<lambda>p. array_index (fst p)) (own_entries kvs))
              @ filter (\<lambda>p. \<not> array_index (fst p)) (own_entries kvs))"
| "Object_values v = []"

text \<open>\<^verbatim>\<open>s.includes(t)\<close> and \<^verbatim>\<open>s.startsWith(t)\<close> on strings.\<close>

definition startsWith :: "string \<Rightarrow> string \<Rightarrow> bool" where
  "startsWith s t = (take (length t) s = t)"

fun str_includes :: "string \<Rightarrow> string \<Rightarrow> bool" where
  "str_includes [] t = (t = [])"
| "str_includes (c # cs) t = (startsWith (c # cs) t \<or> str_includes cs t)"

text \<open>
  \<^verbatim>\<open>m?.includes(t)\<close> on an arbitrary value: \<^verbatim>\<open>undefined\<close> when \<open>m\<close> is nullish, the substring
  test on a string, strict membership on an array, and a \<open>TypeError\<close> on anything else
  (the property \<^verbatim>\<open>includes\<close> is then not a function).
\<close>

fun opt_includes :: "jsval \<Rightarrow> string \<Rightarrow> error + jsval" where
  "opt_includes None t = Inr None"
| "opt_includes (Some JNull) t = Inr None"
| "opt_includes (Some (JStr s)) t = Inr (Some (JBool (str_includes s t)))"
| "opt_includes (Some (JArr xs)) t = Inr (Some (JBool (JStr t \<in> set xs)))"
| "opt_includes v t = Inl TypeError"

section \<open>Network and environment\<close>

text \<open>
  One \<^verbatim>\<open>fetch\<close> followed by \<^verbatim>\<open>res.json()\<close> sends a request and yields the parsed body, or
  throws. The provider is an arbitrary script of replies (a body is the JSON document
  that is sent, not yet parsed), consumed in order, and every
  request sent is recorded: the world is threaded through each adapter call. All
  \<^verbatim>\<open>POST\<close> requests carry the same \<^verbatim>\<open>Content-Type\<close> header; the payload is the object
  handed to \<^verbatim>\<open>JSON.stringify\<close>. What \<^verbatim>\<open>console.log\<close> prints is not modelled; every call of
  it stands inside a \<^verbatim>\<open>try\<close> or \<^verbatim>\<open>catch\<close> block, and where building its arguments can throw
  is said at the block.
\<close>

datatype response = Rejected | Body json

record request =
  verb :: string
  target :: string
  payload :: "(string \<times> jsval) list option"

record world =
  pending :: "response list"
  sent :: "request list"

type_synonym 'a io = "world \<Rightarrow> (error + 'a) \<times> world"

definition ret :: "'a \<Rightarrow> 'a io" where
  "ret x = (\<lambda>w. (Inr x, w))"

definition throw :: "error \<Rightarrow> 'a io" where
  "throw e = (\<lambda>w. (Inl e, w))"

definition lift :: "error + 'a \<Rightarrow> 'a io" where
  "lift r = (\<lambda>w. (r, w))"

definition and_then :: "'a io \<Rightarrow> ('a \<Rightarrow> 'b io) \<Rightarrow> 'b io" where
  "and_then m f =
     (\<lambda>w. case m w of (Inl e, w') \<Rightarrow> (Inl e, w') | (Inr x, w') \<Rightarrow> f x w')"

text \<open>\<^verbatim>\<open>try { m } catch (err) { console.log(...) }\<close> around a block that leaves \<open>d\<close> in the
  variables it did not reach to assign.\<close>

definition try_catch :: "'a io \<Rightarrow> 'a \<Rightarrow> 'a io" where
  "try_catch m d =
     (\<lambda>w. case m w of (Inl e, w') \<Rightarrow> (Inr d, w') | (Inr x, w') \<Rightarrow> (Inr x, w'))"

definition fetch_json :: "request \<Rightarrow> json io" where
  "fetch_json r =
     (\<lambda>w. case pending w of
            [] \<Rightarrow> (Inl NetworkError, w\<lparr>sent := sent w @ [r]\<rparr>)
          | Rejected # rest \<Rightarrow> (Inl NetworkError, \<lparr>pending = rest, sent = sent w @ [r]\<rparr>)
          | Body j # rest \<Rightarrow> (Inr (parsed j), \<lparr>pending = rest, sent = sent w @ [r]\<rparr>))"

definition GET :: "string \<Rightarrow> request" where
  "GET u = \<lparr>verb = ''GET'', target = u, payload = None\<rparr>"

definition POST :: "string \<Rightarrow> (string \<times> jsval) list \<Rightarrow> request" where
  "POST u b = \<lparr>verb = ''POST'', target = u, payload = Some b\<rparr>"

definition hex_digits :: "string \<Rightarrow> nat \<Rightarrow> string" where
  "hex_digits alphabet n = [alphabet ! (n div 16 mod 16), alphabet ! (n mod 16)]"

text \<open>\<^verbatim>\<open>Buffer.toString("hex")\<close>\<close>

definition toString_hex :: "8 word list \<Rightarrow> string" where
  "toString_hex bs = concat (map (\<lambda>b. hex_digits ''0123456789abcdef'' (unat b)) bs)"

definition unreserved :: "char \<Rightarrow> bool" where
  "unreserved c =
     (c \<in> set (''ABCDEFGHIJKLMNOPQRSTUVWXYZabcdefghijklmnopqrstuvwxyz0123456789-_.!~*()''
                @ [CHR 0x27]))"

definition encodeURIComponent :: "string \<Rightarrow> string" where
  "encodeURIComponent s =
     concat (map (\<lambda>c. if unreserved c then [c]
                        else ''%'' @ hex_digits ''0123456789ABCDEF'' (of_char c)) s)"

text \<open>\<^verbatim>\<open>new Date(t)\<close> for a number \<open>t\<close>: the time value in milliseconds, truncated towards
  zero, or \<open>None\<close> for an invalid date (\<open>t\<close> not finite, or beyond 8.64e15 in magnitude).\<close>

definition new_Date :: "double \<Rightarrow> int option" where
  "new_Date t =
     (case t of
        Num x \<Rightarrow> if 8640000000000000 < \<bar>x\<bar> then None
                 else Some (if 0 \<le> x then \<lfloor>x\<rfloor> else \<lceil>x\<rceil>)
      | NegZero \<Rightarrow> Some 0
      | _ \<Rightarrow> None)"

text \<open>\<^verbatim>\<open>Date.now()\<close> as a number.\<close>

definition Date_now :: "host \<Rightarrow> double" where
  "Date_now h = round_double (of_int (date_now h))"

text \<open>
  \<^verbatim>\<open>new Date(Date.now() + (hint ?? 5184000) * 1000)\<close>: the product converts the hint to a
  number, which throws on an object that has no primitive value, and both the product
  and the sum are rounded.
\<close>

definition expiry :: "host \<Rightarrow> jsval \<Rightarrow> error + int option" where
  "expiry h hint =
     (case to_number h (default_to hint (JNum (Num 5184000))) of
        Inl e \<Rightarrow> Inl e
      | Inr n \<Rightarrow> Inr (new_Date (dadd (Date_now h) (dmul n (Num 1000)))))"

definition META_API_BASE :: string where
  "META_API_BASE = ''https://graph.facebook.com/v21.0''"

section \<open>The canonical data model\<close>

record OAuthUrl =
  url :: string
  state :: string

record TokenPair =
  accessToken :: jsval
  expiresAt :: "int option"
  scopes :: "string list"

record PlatformAccount =
  platformAccountId :: jsval
  accountName :: jsval
  accountType :: string
  avatarUrl :: jsval
  pageAccessToken :: jsval

record PlatformContent =
  caption :: string
  hashtags :: "string list"
  mediaUrl :: "string option"
  mediaType :: "string option"
  accountId :: "string option"

record PublishResult =
  platformPostId :: jsval
  platformPostUrl :: string

record PostMetrics =
  views :: json
  likes :: json
  comments :: json
  shares :: json
  saves :: json
  watchTimeSeconds :: json
  avgWatchPercent :: json
  reachUnique :: json
  impressions :: json
  engagementRate :: json


section \<open>The Facebook adapter\<close>

definition Facebook_appId :: "host \<Rightarrow> error + string" where
  "Facebook_appId h =
     (case META_APP_ID h of
        None \<Rightarrow> Inl (PlatformError ''facebook'' (Some (JStr ''META_APP_ID no configurado'')) None)
      | Some i \<Rightarrow>
          if i = [] then
            Inl (PlatformError ''facebook'' (Some (JStr ''META_APP_ID no configurado'')) None)
          else Inr i)"

definition Facebook_appSecret :: "host \<Rightarrow> error + string" where
  "Facebook_appSecret h =
     (case META_APP_SECRET h of
        None \<Rightarrow>
          Inl (PlatformError ''facebook'' (Some (JStr ''META_APP_SECRET no configurado'')) None)
      | Some s \<Rightarrow>
          if s = [] then
            Inl (PlatformError ''facebook'' (Some (JStr ''META_APP_SECRET no configurado'')) None)
          else Inr s)"

definition Facebook_getAuthUrl :: "host \<Rightarrow> string \<Rightarrow> string \<Rightarrow> error + OAuthUrl" where
  "Facebook_getAuthUrl h userId redirectUri =
     (let st = toString_hex (randomBytes h 16) @ '':'' @ userId;
          sc = join '','' [''public_profile'', ''pages_show_list'', ''pages_read_engagement'',
                           ''pages_manage_posts'']
      in case Facebook_appId h of
           Inl e \<Rightarrow> Inl e
         | Inr aid \<Rightarrow>
             Inr \<lparr>url = ''https://www.facebook.com/v21.0/dialog/oauth?''
                         @ ''client_id='' @ aid
                         @ ''&redirect_uri='' @ encodeURIComponent redirectUri
                         @ ''&state='' @ st
                         @ ''&scope='' @ sc
                         @ ''&response_type=code'',
                   state = st\<rparr>)"

definition Facebook_handleCallback :: "host \<Rightarrow> string \<Rightarrow> string \<Rightarrow> TokenPair io" where
  "Facebook_handleCallback h code redirectUri =
     and_then (lift (Facebook_appId h)) (\<lambda>aid.
     and_then (lift (Facebook_appSecret h)) (\<lambda>secret.
     and_then (fetch_json (GET (META_API_BASE @ ''/oauth/access_token?''
                                  @ ''client_id='' @ aid
                                  @ ''&client_secret='' @ secret
                                  @ ''&redirect_uri='' @ encodeURIComponent redirectUri
                                  @ ''&code='' @ code))) (\<lambda>data.
     and_then (lift (get (Some data) ''error'')) (\<lambda>err.
     if truthy err then
       and_then (lift (get err ''message'')) (\<lambda>msg. throw (PlatformError ''facebook'' msg err))
     else
     and_then (lift (Facebook_appId h)) (\<lambda>aid2.
     and_then (lift (Facebook_appSecret h)) (\<lambda>secret2.
     and_then (lift (get (Some data) ''access_token'')) (\<lambda>short.
     and_then (lift (to_string h short)) (\<lambda>shortText.
     and_then (fetch_json (GET (META_API_BASE @ ''/oauth/access_token?''
                                  @ ''grant_type=fb_exchange_token''
                                  @ ''&client_id='' @ aid2
                                  @ ''&client_secret='' @ secret2
                                  @ ''&fb_exchange_token='' @ shortText))) (\<lambda>longData.
     and_then (lift (get (Some longData) ''error'')) (\<lambda>longErr.
     if truthy longErr then
       and_then (lift (get longErr ''message'')) (\<lambda>msg.
         throw (PlatformError ''facebook'' msg None))
     else
     and_then (lift (get (Some longData) ''access_token'')) (\<lambda>tok.
     and_then (lift (get (Some longData) ''expires_in'')) (\<lambda>hint.
     and_then (lift (expiry h hint)) (\<lambda>expires.
     ret \<lparr>accessToken = tok,
          expiresAt = expires,
          scopes = [''pages_manage_posts'', ''pages_read_engagement'',
                    ''read_insights'']\<rparr>)))))))))))))"


text \<open>
  In the profile branch the name is \<^verbatim>\<open>profile.name + " (perfil)"\<close>: the right operand is a
  string, so the sum is the string of the left operand followed by it, and it throws
  where that conversion does.
\<close>

definition Facebook_getAccount :: "host \<Rightarrow> string \<Rightarrow> PlatformAccount io" where
  "Facebook_getAccount h access_token =
     and_then (fetch_json (GET (META_API_BASE
                 @ ''/me/accounts?fields=id,name,category,picture,access_token&access_token=''
                 @ access_token))) (\<lambda>pagesData.
     and_then (lift (get (Some pagesData) ''error'')) (\<lambda>err.
     if truthy err then
       and_then (lift (get err ''message'')) (\<lambda>msg.
         throw (PlatformError ''facebook'' msg None))
     else
     and_then (lift (get (Some pagesData) ''data'')) (\<lambda>pages.
     let page = opt_first pages in
     if truthy page then
       and_then (lift (get page ''id'')) (\<lambda>pid.
       and_then (lift (get page ''name'')) (\<lambda>pname.
       and_then (lift (get page ''picture'')) (\<lambda>picture.
       and_then (lift (get page ''access_token'')) (\<lambda>ptoken.
       ret \<lparr>platformAccountId = pid,
            accountName = pname,
            accountType = ''page'',
            avatarUrl = opt_get (opt_get picture ''data'') ''url'',
            pageAccessToken = ptoken\<rparr>))))
     else
     and_then (fetch_json (GET (META_API_BASE
                 @ ''/me?fields=id,name,picture.width(200)&access_token=''
                 @ access_token))) (\<lambda>profile.
     and_then (lift (get (Some profile) ''error'')) (\<lambda>perr.
     if truthy perr then
       and_then (lift (get perr ''message'')) (\<lambda>msg.
         throw (PlatformError ''facebook'' msg None))
     else
     and_then (lift (get (Some profile) ''id'')) (\<lambda>uid.
     and_then (lift (get (Some profile) ''name'')) (\<lambda>uname.
     and_then (lift (to_string h uname)) (\<lambda>nameText.
     and_then (lift (get (Some profile) ''picture'')) (\<lambda>picture.
     ret \<lparr>platformAccountId = uid,
          accountName = Some (JStr (nameText @ '' (perfil)'')),
          accountType = ''profile'',
          avatarUrl = opt_get (opt_get picture ''data'') ''url'',
          pageAccessToken = None\<rparr>)))))))))"

text \<open>The caption both adapters render: \<^verbatim>\<open>`${caption}\n\n${hashtags.map(...).join(" ")}`\<close>.\<close>

definition render_caption :: "PlatformContent \<Rightarrow> string" where
  "render_caption content =
     caption content @ [CHR 0x0A, CHR 0x0A]
       @ join '' '' (map (\<lambda>t. if startsWith t ''#'' then t else ''#'' @ t) (hashtags content))"

text \<open>Truthiness of the optional string \<^verbatim>\<open>content.mediaUrl\<close>.\<close>

definition has_media :: "PlatformContent \<Rightarrow> bool" where
  "has_media content = (case mediaUrl content of None \<Rightarrow> False | Some u \<Rightarrow> u \<noteq> [])"


text \<open>
  The local object \<^verbatim>\<open>metrics: Record<string, number>\<close> of \<^verbatim>\<open>getPostMetrics\<close>. Its values are
  numbers (the loop stores a value only under \<^verbatim>\<open>typeof val === "number"\<close> or as the result
  of the \<^verbatim>\<open>reduce\<close>), and assigning a number to the key \<^verbatim>\<open>__proto__\<close> stores nothing.
\<close>

definition set_metric ::
  "string \<Rightarrow> double \<Rightarrow> (string \<times> double) list \<Rightarrow> (string \<times> double) list" where
  "set_metric k n m = (if k = ''__proto__'' then m else (k, n) # m)"

definition metric_or_zero :: "(string \<times> double) list \<Rightarrow> string \<Rightarrow> double" where
  "metric_or_zero m k = (case map_of m k of None \<Rightarrow> Num 0 | Some n \<Rightarrow> n)"

text \<open>\<^verbatim>\<open>Object.values(val).reduce((sum, v) => sum + (typeof v === "number" ? v : 0), 0)\<close>\<close>

definition sum_values :: "json \<Rightarrow> double" where
  "sum_values val =
     foldl (\<lambda>sum v. dadd sum (case v of JNum n \<Rightarrow> n | _ \<Rightarrow> Num 0)) (Num 0)
       (Object_values val)"

text \<open>
  What one item of the loop stores: the number \<^verbatim>\<open>val\<close>, the sum of the numbers in an object
  or array \<^verbatim>\<open>val\<close>, and nothing for any other \<^verbatim>\<open>val\<close>.
\<close>

fun metric_value :: "jsval \<Rightarrow> double option" where
  "metric_value (Some (JNum n)) = Some n"
| "metric_value (Some (JArr xs)) = Some (sum_values (JArr xs))"
| "metric_value (Some (JObj kvs)) = Some (sum_values (JObj kvs))"
| "metric_value v = None"

text \<open>
  The body of \<^verbatim>\<open>for (const item of data.data)\<close>, one item at a time. The key
  \<^verbatim>\<open>item.name\<close> is converted to a string only where a value is stored.
\<close>

fun Facebook_insight_items ::
  "host \<Rightarrow> (string \<times> double) list \<Rightarrow> json list \<Rightarrow> error + (string \<times> double) list" where
  "Facebook_insight_items h m [] = Inr m"
| "Facebook_insight_items h m (item # items) =
     (case get (Some item) ''values'' of
        Inl e \<Rightarrow> Inl e
      | Inr vals \<Rightarrow>
          (case metric_value (opt_get (opt_first vals) ''value'') of
             None \<Rightarrow> Facebook_insight_items h m items
           | Some n \<Rightarrow>
               (case to_string h (read_prop item ''name'') of
                  Inl e \<Rightarrow> Inl e
                | Inr k \<Rightarrow> Facebook_insight_items h (set_metric k n m) items)))"

text \<open>
  The first \<^verbatim>\<open>try\<close> block of \<^verbatim>\<open>getPostMetrics\<close>: it yields \<^verbatim>\<open>impressions\<close>, \<^verbatim>\<open>reach\<close> and
  \<^verbatim>\<open>engagedUsers\<close>, which keep their initial 0 when the block throws (all three are
  assigned after the loop, where nothing throws any more: the log that follows prints
  three numbers). The log of the error branch converts \<^verbatim>\<open>data.error.code\<close> and may throw;
  the three variables are 0 there either way.
\<close>

definition Facebook_insights ::
  "host \<Rightarrow> string \<Rightarrow> string \<Rightarrow> (double \<times> double \<times> double) io" where
  "Facebook_insights h access_token postId =
     try_catch
       (and_then (fetch_json (GET (META_API_BASE @ ''/'' @ postId
                    @ ''/insights?metric=''
                    @ ''post_impressions,post_impressions_unique,post_engaged_users''
                    @ ''&access_token='' @ access_token))) (\<lambda>data.
        and_then (lift (get (Some data) ''error'')) (\<lambda>err.
        if truthy err then ret (Num 0, Num 0, Num 0)
        else
        and_then (lift (get (Some data) ''data'')) (\<lambda>d.
        if truthy d then
          and_then (lift (case d of None \<Rightarrow> Inl TypeError | Some j \<Rightarrow> iterate j)) (\<lambda>items.
          and_then (lift (Facebook_insight_items h [] items)) (\<lambda>m.
          ret (metric_or_zero m ''post_impressions'',
               metric_or_zero m ''post_impressions_unique'',
               metric_or_zero m ''post_engaged_users'')))
        else ret (Num 0, Num 0, Num 0)))))
       (Num 0, Num 0, Num 0)"

definition fieldsWithShares :: string where
  "fieldsWithShares = ''reactions.limit(0).summary(true),comments.limit(0).summary(true),shares''"

definition fieldsNoShares :: string where
  "fieldsNoShares = ''reactions.limit(0).summary(true),comments.limit(0).summary(true)''"

text \<open>
  The second \<^verbatim>\<open>try\<close> block: it yields \<^verbatim>\<open>likes\<close>, \<^verbatim>\<open>comments\<close> and \<^verbatim>\<open>shares\<close>, which keep 0
  when the block throws (the three assignments read properties of an object already
  read from, so none of them throws). The log that follows the assignments converts the
  three counts to strings and may throw; the block is then left with the counts
  assigned, as it is when the log succeeds. The log of the error branch may throw as
  well, with the counts still 0.
\<close>

definition Facebook_social ::
  "host \<Rightarrow> string \<Rightarrow> string \<Rightarrow> bool \<Rightarrow> (json \<times> json \<times> json) io" where
  "Facebook_social h access_token postId isPagePost =
     try_catch
       (and_then (fetch_json (GET (META_API_BASE @ ''/'' @ postId @ ''?fields=''
                    @ (if isPagePost then fieldsWithShares else fieldsNoShares)
                    @ ''&access_token='' @ access_token))) (\<lambda>first.
        and_then (lift (get (Some first) ''error'')) (\<lambda>ferr.
        and_then (lift (opt_includes (opt_get ferr ''message'') ''nonexisting field'')) (\<lambda>hit.
        and_then (if truthy hit then
                    fetch_json (GET (META_API_BASE @ ''/'' @ postId @ ''?fields=''
                      @ fieldsNoShares
                      @ ''&access_token='' @ access_token))
                  else ret first) (\<lambda>socialData.
        and_then (lift (get (Some socialData) ''error'')) (\<lambda>err.
        if truthy err then ret (JNum (Num 0), JNum (Num 0), JNum (Num 0))
        else
        and_then (lift (get (Some socialData) ''reactions'')) (\<lambda>r.
        and_then (lift (get (Some socialData) ''comments'')) (\<lambda>c.
        and_then (lift (get (Some socialData) ''shares'')) (\<lambda>s.
        ret (default_to (opt_get (opt_get r ''summary'') ''total_count'') (JNum (Num 0)),
             default_to (opt_get (opt_get c ''summary'') ''total_count'') (JNum (Num 0)),
             default_to (opt_get s ''count'') (JNum (Num 0))))))))))))
       (JNum (Num 0), JNum (Num 0), JNum (Num 0))"

text \<open>
  \<^verbatim>\<open>likes + comments + shares\<close>, which stands after both \<^verbatim>\<open>try\<close> blocks: what it throws is
  thrown by \<^verbatim>\<open>getPostMetrics\<close>.
\<close>

definition totalInteractions :: "host \<Rightarrow> json \<Rightarrow> json \<Rightarrow> json \<Rightarrow> error + json" where
  "totalInteractions h lk cm sh =
     (case js_add h lk cm of Inl e \<Rightarrow> Inl e | Inr s \<Rightarrow> js_add h s sh)"

text \<open>\<^verbatim>\<open>reach > 0 ? (engagedUsers / reach) * 100 : 0\<close>\<close>

definition rate :: "double \<Rightarrow> double \<Rightarrow> double" where
  "rate engagedUsers reach =
     (if positive reach then dmul (ddiv engagedUsers reach) (Num 100) else Num 0)"

text \<open>
  \<^verbatim>\<open>impressions\<close> is \<open>native\<close> after the first block; the guard
  \<^verbatim>\<open>impressions === 0 && totalInteractions > 0\<close> evaluates its second operand only when the
  first holds.
\<close>

definition Facebook_getPostMetrics :: "host \<Rightarrow> string \<Rightarrow> string \<Rightarrow> PostMetrics io" where
  "Facebook_getPostMetrics h access_token postId =
     (let isPagePost = str_includes postId ''_'' in
      and_then (if isPagePost then Facebook_insights h access_token postId
                else ret (Num 0, Num 0, Num 0)) (\<lambda>(native, reach, engagedUsers).
      and_then (Facebook_social h access_token postId isPagePost) (\<lambda>(lk, cm, sh).
      and_then (lift (totalInteractions h lk cm sh)) (\<lambda>interactions.
      and_then (lift (if is_zero native then js_gt_zero h interactions else Inr False)) (\<lambda>fallback.
      let imp = (if fallback then interactions else JNum native) in
      ret \<lparr>views = imp,
           likes = lk,
           comments = cm,
           shares = sh,
           saves = JNum (Num 0),
           watchTimeSeconds = JNum (Num 0),
           avgWatchPercent = JNum (Num 0),
           reachUnique = JNum reach,
           impressions = imp,
           engagementRate = JNum (rate engagedUsers reach)\<rparr>)))))"


section \<open>The Instagram adapter\<close>

definition Instagram_appId :: "host \<Rightarrow> error + string" where
  "Instagram_appId h =
     (case META_APP_ID h of
        None \<Rightarrow> Inl (PlatformError ''instagram'' (Some (JStr ''META_APP_ID no configurado'')) None)
      | Some i \<Rightarrow>
          if i = [] then
            Inl (PlatformError ''instagram'' (Some (JStr ''META_APP_ID no configurado'')) None)
          else Inr i)"

definition Instagram_appSecret :: "host \<Rightarrow> error + string" where
  "Instagram_appSecret h =
     (case META_APP_SECRET h of
        None \<Rightarrow>
          Inl (PlatformError ''instagram'' (Some (JStr ''META_APP_SECRET no configurado'')) None)
      | Some s \<Rightarrow>
          if s = [] then
            Inl (PlatformError ''instagram'' (Some (JStr ''META_APP_SECRET no configurado'')) None)
          else Inr s)"

definition Instagram_getAuthUrl :: "host \<Rightarrow> string \<Rightarrow> string \<Rightarrow> error + OAuthUrl" where
  "Instagram_getAuthUrl h userId redirectUri =
     (let st = toString_hex (randomBytes h 16) @ '':'' @ userId;
          sc = join '','' [''public_profile'', ''pages_show_list'', ''pages_read_engagement'']
      in case Instagram_appId h of
           Inl e \<Rightarrow> Inl e
         | Inr aid \<Rightarrow>
             Inr \<lparr>url = ''https://www.facebook.com/v21.0/dialog/oauth?''
                         @ ''client_id='' @ aid
                         @ ''&redirect_uri='' @ encodeURIComponent redirectUri
                         @ ''&state='' @ st
                         @ ''&scope='' @ sc
                         @ ''&response_type=code'',
                   state = st\<rparr>)"

definition Instagram_handleCallback :: "host \<Rightarrow> string \<Rightarrow> string \<Rightarrow> TokenPair io" where
  "Instagram_handleCallback h code redirectUri =
     and_then (lift (Instagram_appId h)) (\<lambda>aid.
     and_then (lift (Instagram_appSecret h)) (\<lambda>secret.
     and_then (fetch_json (GET (META_API_BASE @ ''/oauth/access_token?''
                                  @ ''client_id='' @ aid
                                  @ ''&client_secret='' @ secret
                                  @ ''&redirect_uri='' @ encodeURIComponent redirectUri
                                  @ ''&code='' @ code))) (\<lambda>data.
     and_then (lift (get (Some data) ''error'')) (\<lambda>err.
     if truthy err then
       and_then (lift (get err ''message'')) (\<lambda>msg.
         throw (PlatformError ''instagram'' msg None))
     else
     and_then (lift (Instagram_appId h)) (\<lambda>aid2.
     and_then (lift (Instagram_appSecret h)) (\<lambda>secret2.
     and_then (lift (get (Some data) ''access_token'')) (\<lambda>short.
     and_then (lift (to_string h short)) (\<lambda>shortText.
     and_then (fetch_json (GET (META_API_BASE @ ''/oauth/access_token?''
                                  @ ''grant_type=fb_exchange_token''
                                  @ ''&client_id='' @ aid2
                                  @ ''&client_secret='' @ secret2
                                  @ ''&fb_exchange_token='' @ shortText))) (\<lambda>longData.
     and_then (lift (get (Some longData) ''access_token'')) (\<lambda>tok.
     and_then (lift (get (Some data) ''access_token'')) (\<lambda>fallback.
     and_then (lift (get (Some longData) ''expires_in'')) (\<lambda>hint.
     and_then (lift (expiry h hint)) (\<lambda>expires.
     ret \<lparr>accessToken = coalesce tok fallback,
          expiresAt = expires,
          scopes = [''instagram_basic'', ''instagram_content_publish'',
                    ''instagram_manage_insights'']\<rparr>)))))))))))))"


text \<open>
  \<^verbatim>\<open>for (const page of pagesData.data ?? [])\<close>: the first page whose
  \<^verbatim>\<open>instagram_business_account\<close> is truthy ends the loop with an account; \<open>None\<close> when the
  loop runs to its end.
\<close>

fun Instagram_pages :: "json list \<Rightarrow> error + PlatformAccount option" where
  "Instagram_pages [] = Inr None"
| "Instagram_pages (page # pages) =
     (case get (Some page) ''instagram_business_account'' of
        Inl e \<Rightarrow> Inl e
      | Inr ig \<Rightarrow>
          if truthy ig then
            Inr (Some \<lparr>platformAccountId = opt_get ig ''id'',
                       accountName = coalesce (opt_get ig ''username'') (read_prop page ''name''),
                       accountType = ''business'',
                       avatarUrl = opt_get ig ''profile_picture_url'',
                       pageAccessToken = None\<rparr>)
          else Instagram_pages pages)"

definition Instagram_getAccount :: "string \<Rightarrow> PlatformAccount io" where
  "Instagram_getAccount access_token =
     and_then (fetch_json (GET (META_API_BASE
        @ ''/me/accounts?fields=id,name,instagram_business_account{id,username,profile_picture_url}''
        @ ''&access_token='' @ access_token))) (\<lambda>pagesData.
     and_then (lift (get (Some pagesData) ''error'')) (\<lambda>err.
     if truthy err then
       and_then (lift (get err ''message'')) (\<lambda>msg.
         throw (PlatformError ''instagram'' msg None))
     else
     and_then (lift (get (Some pagesData) ''data'')) (\<lambda>d.
     and_then (lift (case d of None \<Rightarrow> Inr []
                      | Some j \<Rightarrow> if j = JNull then Inr [] else iterate j)) (\<lambda>pages.
     and_then (lift (Instagram_pages pages)) (\<lambda>found.
     case found of
       Some account \<Rightarrow> ret account
     | None \<Rightarrow>
         throw (PlatformError ''instagram''
                  (Some (JStr (''No se encontr'' @ [CHR 0xC3, CHR 0xB3]
                     @ '' una cuenta de Instagram Business conectada a tus p''
                     @ [CHR 0xC3, CHR 0xA1] @ ''ginas de Facebook.''))) None))))))"

definition Instagram_publishContent ::
  "host \<Rightarrow> string \<Rightarrow> PlatformContent \<Rightarrow> PublishResult io" where
  "Instagram_publishContent h access_token content =
     and_then (Instagram_getAccount access_token) (\<lambda>account.
     let igId = platformAccountId account;
         cap = render_caption content
     in
     and_then
       (if has_media content \<and> mediaType content = Some ''video'' then
          ret [(''caption'', Some (JStr cap)),
               (''access_token'', Some (JStr access_token)),
               (''media_type'', Some (JStr ''REELS'')),
               (''video_url'', map_option JStr (mediaUrl content))]
        else if has_media content then
          ret [(''caption'', Some (JStr cap)),
               (''access_token'', Some (JStr access_token)),
               (''image_url'', map_option JStr (mediaUrl content))]
        else
          throw (PlatformError ''instagram''
                   (Some (JStr ''Instagram requiere un media (imagen o video) para publicar.''))
                   None)) (\<lambda>containerParams.
     and_then (lift (to_string h igId)) (\<lambda>igText.
     and_then (fetch_json (POST (META_API_BASE @ ''/'' @ igText @ ''/media'')
                             containerParams)) (\<lambda>containerData.
     and_then (lift (get (Some containerData) ''error'')) (\<lambda>cerr.
     if truthy cerr then
       and_then (lift (get cerr ''message'')) (\<lambda>msg.
         throw (PlatformError ''instagram'' msg None))
     else
     and_then (lift (get (Some containerData) ''id'')) (\<lambda>containerId.
     and_then (fetch_json (POST (META_API_BASE @ ''/'' @ igText @ ''/media_publish'')
                             [(''creation_id'', containerId),
                              (''access_token'', Some (JStr access_token))])) (\<lambda>publishData.
     and_then (lift (get (Some publishData) ''error'')) (\<lambda>perr.
     if truthy perr then
       and_then (lift (get perr ''message'')) (\<lambda>msg.
         throw (PlatformError ''instagram'' msg None))
     else
     and_then (lift (get (Some publishData) ''id'')) (\<lambda>pid.
     and_then (lift (to_string h pid)) (\<lambda>pidText.
     ret \<lparr>platformPostId = pid,
          platformPostUrl = ''https://www.instagram.com/p/'' @ pidText\<rparr>))))))))))"

text \<open>
  The local object \<^verbatim>\<open>metrics\<close> of the Instagram \<^verbatim>\<open>getPostMetrics\<close> stores whatever JSON
  value the payload carries, under whatever key. It is the list of its own properties
  and its prototype: \<^verbatim>\<open>Object.prototype\<close> at first, and then whatever object, array or
  \<^verbatim>\<open>null\<close> an assignment to \<^verbatim>\<open>__proto__\<close> has put there.
\<close>

datatype prototype = Object_prototype | Parsed json

type_synonym metrics_object = "(string \<times> json) list \<times> prototype"

text \<open>
  An assignment to \<^verbatim>\<open>__proto__\<close> reaches the accessor of \<^verbatim>\<open>Object.prototype\<close> unless a data
  property of that name comes first: an own one of \<^verbatim>\<open>metrics\<close>, or an own one of a parsed
  object that is its prototype (\<^verbatim>\<open>JSON.parse\<close> defines \<^verbatim>\<open>__proto__\<close> as an ordinary key). A
  \<^verbatim>\<open>null\<close> prototype ends the chain before the accessor.
\<close>

fun reaches_accessor :: "prototype \<Rightarrow> bool" where
  "reaches_accessor Object_prototype = True"
| "reaches_accessor (Parsed (JObj kvs)) = (map_of kvs ''__proto__'' = None)"
| "reaches_accessor (Parsed (JArr xs)) = True"
| "reaches_accessor (Parsed v) = False"

fun is_object :: "json \<Rightarrow> bool" where
  "is_object (JObj kvs) = True"
| "is_object (JArr xs) = True"
| "is_object v = False"

text \<open>
  \<^verbatim>\<open>metrics[k] = v\<close>. The accessor replaces the prototype by an object, an array or \<^verbatim>\<open>null\<close>
  and drops any other value; everywhere else the assignment defines or updates an own
  property, since every property the chain can hold for another key is a writable data
  property.
\<close>

fun assign_metric :: "string \<Rightarrow> json \<Rightarrow> metrics_object \<Rightarrow> metrics_object" where
  "assign_metric k v (own, proto) =
     (if k = ''__proto__'' \<and> map_of own k = None \<and> reaches_accessor proto then
        (if is_object v \<or> v = JNull then (own, Parsed v) else (own, proto))
      else ((k, v) # own, proto))"

text \<open>
  \<^verbatim>\<open>metrics.k\<close> for the keys that are read: an own property, else one of the parsed
  prototype (neither \<^verbatim>\<open>Object.prototype\<close> nor \<^verbatim>\<open>Array.prototype\<close> has any of them).
\<close>

fun read_metric :: "metrics_object \<Rightarrow> string \<Rightarrow> jsval" where
  "read_metric (own, proto) k =
     (case map_of own k of
        Some v \<Rightarrow> Some v
      | None \<Rightarrow> (case proto of Object_prototype \<Rightarrow> None | Parsed j \<Rightarrow> read_prop j k))"

fun Instagram_insight_items ::
  "host \<Rightarrow> metrics_object \<Rightarrow> json list \<Rightarrow> error + metrics_object" where
  "Instagram_insight_items h m [] = Inr m"
| "Instagram_insight_items h m (item # items) =
     (case get (Some item) ''name'' of
        Inl e \<Rightarrow> Inl e
      | Inr nm \<Rightarrow>
          (case to_string h nm of
             Inl e \<Rightarrow> Inl e
           | Inr k \<Rightarrow>
               Instagram_insight_items h
                 (assign_metric k
                    (default_to (opt_get (opt_first (read_prop item ''values'')) ''value'')
                       (JNum (Num 0))) m)
                 items))"

definition Instagram_getPostMetrics :: "host \<Rightarrow> string \<Rightarrow> string \<Rightarrow> PostMetrics io" where
  "Instagram_getPostMetrics h access_token postId =
     and_then (fetch_json (GET (META_API_BASE @ ''/'' @ postId
                 @ ''/insights?metric=impressions,reach,likes,comments,shares,saved''
                 @ ''&access_token='' @ access_token))) (\<lambda>data.
     and_then (lift (get (Some data) ''data'')) (\<lambda>d.
     and_then (lift (case d of None \<Rightarrow> Inr []
                      | Some j \<Rightarrow> if j = JNull then Inr [] else iterate j)) (\<lambda>items.
     and_then (lift (Instagram_insight_items h ([], Object_prototype) items)) (\<lambda>m.
     ret \<lparr>views = default_to (read_metric m ''impressions'') (JNum (Num 0)),
          likes = default_to (read_metric m ''likes'') (JNum (Num 0)),
          comments = default_to (read_metric m ''comments'') (JNum (Num 0)),
          shares = default_to (read_metric m ''shares'') (JNum (Num 0)),
          saves = default_to (read_metric m ''saved'') (JNum (Num 0)),
          watchTimeSeconds = JNum (Num 0),
          avgWatchPercent = JNum (Num 0),
          reachUnique = default_to (read_metric m ''reach'') (JNum (Num 0)),
          impressions = default_to (read_metric m ''impressions'') (JNum (Num 0)),
          engagementRate = JNum (Num 0)\<rparr>))))"


section \<open>Vocabulary of the properties\<close>

text \<open>The part of a string after the last, and after the first, occurrence of a character.\<close>

definition suffix_after_final :: "char \<Rightarrow> string \<Rightarrow> string" where
  "suffix_after_final c s = rev (takeWhile (\<lambda>x. x \<noteq> c) (rev s))"

definition suffix_after_first :: "char \<Rightarrow> string \<Rightarrow> string" where
  "suffix_after_first c s = drop 1 (dropWhile (\<lambda>x. x \<noteq> c) s)"

text \<open>A computation that sends nothing leaves the world as it is.\<close>

definition silent :: "'a io \<Rightarrow> bool" where
  "silent m = (\<forall>w. snd (m w) = w)"

section \<open>Example inputs\<close>

text \<open>
  A configured host. The examples below turn no number other than 0 into a string and no
  string into a number, so the two conversions are left trivial.
\<close>

definition example_host :: host where
  "example_host =
     \<lparr>META_APP_ID = Some ''1234567890'',
      META_APP_SECRET = Some ''s3cr3t'',
      date_now = 1800000000000,
      randomBytes = (\<lambda>n. replicate n 0xAB),
      number_text = (\<lambda>r. ''0''),
      string_number = (\<lambda>s. NaN)\<rparr>"


text \<open>Replies of the token endpoint, and a world that holds a script of replies.\<close>

definition token_reply :: "string \<Rightarrow> json" where
  "token_reply t = JObj [(''access_token'', JStr t), (''token_type'', JStr ''bearer'')]"

definition error_reply :: "string \<Rightarrow> json" where
  "error_reply m =
     JObj [(''error'', JObj [(''message'', JStr m), (''type'', JStr ''OAuthException'')])]"

definition replies :: "response list \<Rightarrow> world" where
  "replies rs = \<lparr>pending = rs, sent = []\<rparr>"

text \<open>The two requests of account resolution, and the validation failure of the Instagram
  \<^verbatim>\<open>publishContent\<close>.\<close>

definition Facebook_pages_request :: "string \<Rightarrow> request" where
  "Facebook_pages_request access_token =
     \<lparr>verb = ''GET'',
      target = ''https://graph.facebook.com/v21.0/me/accounts''
        @ ''?fields=id,name,category,picture,access_token&access_token='' @ access_token,
      payload = None\<rparr>"

definition Facebook_profile_request :: "string \<Rightarrow> request" where
  "Facebook_profile_request access_token =
     \<lparr>verb = ''GET'',
      target = ''https://graph.facebook.com/v21.0/me''
        @ ''?fields=id,name,picture.width(200)&access_token='' @ access_token,
      payload = None\<rparr>"

definition Instagram_pages_request :: "string \<Rightarrow> request" where
  "Instagram_pages_request access_token =
     \<lparr>verb = ''GET'',
      target = ''https://graph.facebook.com/v21.0/me/accounts''
        @ ''?fields=id,name,instagram_business_account{id,username,profile_picture_url}''
        @ ''&access_token='' @ access_token,
      payload = None\<rparr>"

text \<open>The message of the error that tells that no page carries a business account.\<close>

definition no_business_account :: string where
  "no_business_account =
     ''No se encontr'' @ [CHR 0xC3, CHR 0xB3]
       @ '' una cuenta de Instagram Business conectada a tus p'' @ [CHR 0xC3, CHR 0xA1]
       @ ''ginas de Facebook.''"

definition media_required :: error where
  "media_required =
     PlatformError ''instagram''
       (Some (JStr ''Instagram requiere un media (imagen o video) para publicar.'')) None"

definition shop_page :: json where
  "shop_page =
     JObj [(''id'', JStr ''p1''), (''name'', JStr ''Shop''),
           (''access_token'', JStr ''PAGE-TOKEN'')]"

definition shop_page_with_instagram :: json where
  "shop_page_with_instagram =
     JObj [(''id'', JStr ''p1''), (''name'', JStr ''Shop''),
           (''instagram_business_account'',
            JObj [(''id'', JStr ''17''), (''username'', JStr ''shop_ig'')])]"

definition pages_reply :: "json list \<Rightarrow> json" where
  "pages_reply ps = JObj [(''data'', JArr ps)]"

definition text_only :: PlatformContent where
  "text_only =
     \<lparr>caption = ''Hello'', hashtags = [''launch''], mediaUrl = None, mediaType = None,
      accountId = None\<rparr>"

text \<open>The requests of the Facebook \<^verbatim>\<open>getPostMetrics\<close>.\<close>

definition Facebook_insights_request :: "string \<Rightarrow> string \<Rightarrow> request" where
  "Facebook_insights_request access_token postId =
     \<lparr>verb = ''GET'',
      target = ''https://graph.facebook.com/v21.0/'' @ postId
        @ ''/insights?metric=post_impressions,post_impressions_unique,post_engaged_users''
        @ ''&access_token='' @ access_token,
      payload = None\<rparr>"

definition Facebook_social_request :: "string \<Rightarrow> string \<Rightarrow> string \<Rightarrow> request" where
  "Facebook_social_request access_token postId fs =
     \<lparr>verb = ''GET'',
      target = ''https://graph.facebook.com/v21.0/'' @ postId @ ''?fields='' @ fs
        @ ''&access_token='' @ access_token,
      payload = None\<rparr>"

text \<open>
  What the insights phase of the Facebook \<^verbatim>\<open>getPostMetrics\<close> leaves in \<^verbatim>\<open>impressions\<close>,
  \<^verbatim>\<open>reach\<close> and \<^verbatim>\<open>engagedUsers\<close>: the values fetched for a page post, and the initial zeros
  for any other post or when the phase fails.
\<close>

definition fetched_insights ::
  "host \<Rightarrow> string \<Rightarrow> string \<Rightarrow> world \<Rightarrow> double \<times> double \<times> double" where
  "fetched_insights h access_token postId w =
     (if str_includes postId ''_'' then
        (case fst (Facebook_insights h access_token postId w) of
           Inl e \<Rightarrow> (Num 0, Num 0, Num 0)
         | Inr t \<Rightarrow> t)
      else (Num 0, Num 0, Num 0))"

text \<open>
  What the social phase, which runs on the world the insights phase has left, leaves in
  \<^verbatim>\<open>likes\<close>, \<^verbatim>\<open>comments\<close> and \<^verbatim>\<open>shares\<close>.
\<close>

definition fetched_counts :: "host \<Rightarrow> string \<Rightarrow> string \<Rightarrow> world \<Rightarrow> json \<times> json \<times> json" where
  "fetched_counts h access_token postId w =
     (case fst (Facebook_social h access_token postId (str_includes postId ''_'')
                  (if str_includes postId ''_''
                   then snd (Facebook_insights h access_token postId w) else w)) of
        Inl e \<Rightarrow> (JNum (Num 0), JNum (Num 0), JNum (Num 0))
      | Inr t \<Rightarrow> t)"

text \<open>The number of replies the insights phase consumes.\<close>

definition insights_replies :: "string \<Rightarrow> nat" where
  "insights_replies postId = (if str_includes postId ''_'' then 1 else 0)"

text \<open>
  The counts \<^verbatim>\<open>likes\<close>, \<^verbatim>\<open>comments\<close> and \<^verbatim>\<open>shares\<close> as the reply at the head of a script
  gives them: read from a reply that, once parsed, carries no error, and the zero
  defaults otherwise (no reply, a rejected fetch, \<^verbatim>\<open>null\<close>, or an error payload).
\<close>

definition social_counts :: "response list \<Rightarrow> json \<times> json \<times> json" where
  "social_counts rs =
     (case rs of
        Body d # _ \<Rightarrow>
          if parsed d = JNull \<or> truthy (read_prop (parsed d) ''error'')
          then (JNum (Num 0), JNum (Num 0), JNum (Num 0))
          else (default_to (opt_get (opt_get (read_prop (parsed d) ''reactions'') ''summary'')
                              ''total_count'') (JNum (Num 0)),
                default_to (opt_get (opt_get (read_prop (parsed d) ''comments'') ''summary'')
                              ''total_count'') (JNum (Num 0)),
                default_to (opt_get (read_prop (parsed d) ''shares'') ''count'') (JNum (Num 0)))
      | _ \<Rightarrow> (JNum (Num 0), JNum (Num 0), JNum (Num 0)))"

text \<open>
  A sub-query that fails, as its script of replies shows it: there is no reply, the fetch
  is rejected, the body is \<^verbatim>\<open>null\<close>, or the body carries a truthy \<^verbatim>\<open>error\<close>. The social
  sub-query has failed when its reply has, and, where that reply makes the adapter retry,
  the reply to the retry has failed too.
\<close>

definition reply_failed :: "response list \<Rightarrow> bool" where
  "reply_failed rs =
     (case rs of
        Body d # _ \<Rightarrow> parsed d = JNull \<or> truthy (read_prop (parsed d) ''error'')
      | _ \<Rightarrow> True)"





text \<open>Replies of the insights and node endpoints, for a page post.\<close>

definition insight_item :: "string \<Rightarrow> json \<Rightarrow> json" where
  "insight_item n v =
     JObj [(''name'', JStr n), (''period'', JStr ''lifetime''),
           (''values'', JArr [JObj [(''value'', v)]])]"

definition insights_reply :: "rat \<Rightarrow> rat \<Rightarrow> rat \<Rightarrow> json" where
  "insights_reply i u e =
     JObj [(''data'',
            JArr [insight_item ''post_impressions'' (JNum (Num i)),
                  insight_item ''post_impressions_unique'' (JNum (Num u)),
                  insight_item ''post_engaged_users'' (JNum (Num e))])]"

definition counts_reply :: "json \<Rightarrow> json \<Rightarrow> json" where
  "counts_reply l c =
     JObj [(''reactions'', JObj [(''summary'', JObj [(''total_count'', l)])]),
           (''comments'', JObj [(''summary'', JObj [(''total_count'', c)])])]"

definition instagram_insights_reply :: json where
  "instagram_insights_reply =
     JObj [(''data'', JArr [insight_item ''reach'' (JNum (Num 200)),
                            insight_item ''likes'' (JNum (Num 50))])]"

text \<open>A value that has no primitive: an object whose own \<^verbatim>\<open>toString\<close> is not a function.\<close>

definition no_primitive :: json where
  "no_primitive = JObj [(''toString'', JNum (Num 1))]"

section \<open>Auxiliary facts\<close>

lemmas io_defs = and_then_def lift_def ret_def throw_def try_catch_def

subsection \<open>Rounding\<close>

lemma ilog2_le: "1 \<le> n \<Longrightarrow> 2 ^ ilog2 n \<le> n"
proof (induction n rule: ilog2.induct)
  case (1 n)
  show ?case
  proof (cases "n < 2")
    case True
    then show ?thesis using 1(2) by simp
  next
    case False
    then have "1 \<le> n div 2" by simp
    then have "2 ^ ilog2 (n div 2) \<le> n div 2" using 1(1) False by simp
    then have "2 * 2 ^ ilog2 (n div 2) \<le> n" by simp
    then show ?thesis using False by (subst ilog2.simps) simp
  qed
qed

lemma round_even_of_int: "round_even (of_int i) = i"
  by (simp add: round_even_def Let_def)

lemma round_magnitude_nat:
  assumes "1 \<le> n" and "n < 2 ^ 53"
  shows "round_magnitude (of_nat n) = of_nat n"
proof -
  let ?e = "ilog2 n"
  have "(2::nat) ^ ?e \<le> n" using assms(1) by (rule ilog2_le)
  then have "(2::nat) ^ ?e < 2 ^ 53" using assms(2) by simp
  then have e: "?e < 53" by (simp only: power_strict_increasing_iff one_less_numeral_iff semiring_norm)
  have ex: "exponent (of_nat n) = int ?e"
    using assms(1) by (simp add: exponent_def del: ilog2.simps)
  define k where "k = 52 - ?e"
  have q: "pow2 (max (exponent (of_nat n)) (- 1022) - 52) = 1 / 2 ^ k"
  proof (cases "?e = 52")
    case True
    then show ?thesis unfolding ex by (simp add: pow2_def k_def del: ilog2.simps)
  next
    case False
    then have "?e < 52" using e by simp
    then have "nat (52 - int ?e) = k" "\<not> 0 \<le> max (int ?e) (- 1022) - 52"
      "- (max (int ?e) (- 1022) - 52) = 52 - int ?e"
      by (simp_all add: k_def del: ilog2.simps)
    then show ?thesis unfolding ex pow2_def by (simp only: if_False)
  qed
  have "rat_of_nat n / (1 / 2 ^ k) = of_int (int n * 2 ^ k)" by simp
  then have "round_even (rat_of_nat n / (1 / 2 ^ k)) = int n * 2 ^ k"
    by (simp only: round_even_of_int)
  then show ?thesis
    unfolding round_magnitude_def q Let_def by simp
qed

lemma round_double_Ints:
  assumes "x \<in> \<int>" and "\<bar>x\<bar> < 9007199254740992"
  shows "round_double x = Num x"
proof (cases "x = 0")
  case True
  then show ?thesis by (simp add: round_double_def)
next
  case False
  from assms(1) obtain i where i: "x = of_int i" by (rule Ints_cases)
  define n where "n = nat \<bar>i\<bar>"
  have a: "\<bar>x\<bar> = of_nat n" unfolding i n_def by simp
  have "1 \<le> n" using False unfolding i n_def by simp
  moreover have "rat_of_nat n < rat_of_nat (2 ^ 53)" using assms(2) unfolding a by simp
  then have "n < 2 ^ 53" by (simp only: of_nat_less_iff)
  ultimately have m: "round_magnitude \<bar>x\<bar> = \<bar>x\<bar>" unfolding a by (rule round_magnitude_nat)
  have "\<bar>x\<bar> < pow2 1024"
  proof -
    have "(9007199254740992::rat) = 2 ^ 53" by simp
    also have "\<dots> \<le> 2 ^ 1024" by (rule power_increasing) simp_all
    finally show ?thesis using assms(2) by (simp add: pow2_def)
  qed
  then show ?thesis
    using False by (simp add: round_double_def m Let_def)
qed

lemma Date_now_exact: "\<bar>date_now h\<bar> < 9007199254740992 \<Longrightarrow> Date_now h = Num (of_int (date_now h))"
proof -
  assume "\<bar>date_now h\<bar> < 9007199254740992"
  then have "\<bar>rat_of_int (date_now h)\<bar> < 9007199254740992"
    by (metis of_int_abs of_int_less_iff of_int_numeral)
  then show ?thesis unfolding Date_now_def by (simp add: round_double_Ints)
qed

lemma round_double_quarter: "round_double (1 / 4) = Num (1 / 4)"
  by (simp add: round_double_def round_magnitude_def exponent_def pow2_def round_even_def Let_def)

lemma nearest_Ints:
  "x \<in> \<int> \<Longrightarrow> \<bar>x\<bar> < 9007199254740992 \<Longrightarrow> nearest (Num x) = Num x"
  by (simp add: nearest_def round_double_Ints)

lemma nearest_int:
  assumes "\<bar>i\<bar> < 9007199254740992"
  shows "nearest (Num (of_int i)) = Num (of_int i)"
proof -
  have "\<bar>rat_of_int i\<bar> < 9007199254740992"
    using assms by (metis of_int_abs of_int_less_iff of_int_numeral)
  then show ?thesis by (intro nearest_Ints) simp_all
qed

lemma nearest_quarter: "nearest (Num (1 / 4)) = Num (1 / 4)"
  by (simp add: nearest_def round_double_quarter)

lemma nearest_special:
  "nearest NegZero = NegZero" "nearest PosInf = PosInf" "nearest NegInf = NegInf"
  "nearest NaN = NaN"
  by (simp_all add: nearest_def)

lemma dadd_int:
  assumes "\<bar>a\<bar> < 9007199254740992" and "\<bar>b\<bar> < 9007199254740992"
    and "\<bar>a + b\<bar> < 9007199254740992"
  shows "dadd (Num (of_int a)) (Num (of_int b)) = Num (of_int (a + b))"
proof -
  have "\<bar>rat_of_int (a + b)\<bar> < 9007199254740992"
    using assms(3) by (metis of_int_abs of_int_less_iff of_int_numeral)
  then have "round_double (of_int (a + b)) = Num (of_int (a + b))"
    by (intro round_double_Ints) simp_all
  then show ?thesis
    unfolding dadd_def nearest_int [OF assms(1)] nearest_int [OF assms(2)]
    by (auto simp add: add_doubles_def)
qed

lemma dmul_int:
  assumes "\<bar>a\<bar> < 9007199254740992" and "\<bar>b\<bar> < 9007199254740992"
    and "\<bar>a * b\<bar> < 9007199254740992" and "0 < b"
  shows "dmul (Num (of_int a)) (Num (of_int b)) = Num (of_int (a * b))"
proof -
  have "\<bar>rat_of_int (a * b)\<bar> < 9007199254740992"
    using assms(3) by (metis of_int_abs of_int_less_iff of_int_numeral)
  then have "round_double (of_int (a * b)) = Num (of_int (a * b))"
    by (intro round_double_Ints) simp_all
  then show ?thesis
    unfolding dmul_def nearest_int [OF assms(1)] nearest_int [OF assms(2)]
    using assms(4) by (auto simp add: multiply_doubles_def signed_zero_def)
qed

lemmas number_defs = dadd_def dmul_def ddiv_def add_doubles_def multiply_doubles_def
  divide_doubles_def is_zero_def positive_def nearest_Ints nearest_quarter nearest_special
  round_double_Ints round_double_quarter

lemma new_Date_int:
  assumes "\<bar>i\<bar> \<le> 8640000000000000"
  shows "new_Date (Num (of_int i)) = Some i"
proof -
  have "\<bar>rat_of_int i\<bar> \<le> 8640000000000000"
    using assms by (metis of_int_abs of_int_le_iff of_int_numeral)
  then show ?thesis by (simp add: new_Date_def)
qed

text \<open>
  One tenth plus two tenths: both literals are rounded, and the sum, which lies half way
  between two doubles, goes to the even one, the double printed as
  \<^verbatim>\<open>0.30000000000000004\<close>.
\<close>

lemma example_tenths:
  "dadd (Num (1 / 10)) (Num (2 / 10)) = Num (1351079888211149 / 4503599627370496)"
proof -
  have floors: "\<lfloor>(36028797018963968::rat) / 5\<rfloor> = 7205759403792793"
    "\<lfloor>(10808639105689191::rat) / 2\<rfloor> = 5404319552844595"
    by (rule floor_unique, simp, simp)+
  have ceilings: "\<lceil>(36028797018963968::rat) / 10808639105689191\<rceil> = 4"
    by (rule ceiling_unique) simp_all
  have tenth: "round_double (1 / 10) = Num (3602879701896397 / 36028797018963968)"
    by (simp add: round_double_def round_magnitude_def exponent_def pow2_def round_even_def
        Let_def floors)
  have fifth: "round_double (1 / 5) = Num (3602879701896397 / 18014398509481984)"
    by (simp add: round_double_def round_magnitude_def exponent_def pow2_def round_even_def
        Let_def floors)
  have sum: "round_double (10808639105689191 / 36028797018963968)
               = Num (1351079888211149 / 4503599627370496)"
    by (simp add: round_double_def round_magnitude_def exponent_def pow2_def round_even_def
        Let_def floors ceilings)
  show ?thesis
    by (simp add: dadd_def add_doubles_def nearest_def tenth fifth sum)
qed

subsection \<open>Conversions\<close>

lemma to_string_text: "\<not> hostile j \<Longrightarrow> to_string h (Some j) = Inr (json_text h j)"
  by (simp add: to_string_def json_string_def)

lemma to_string_hostile: "hostile j \<Longrightarrow> to_string h (Some j) = Inl TypeError"
  by (simp add: to_string_def json_string_def)

lemma to_string_JStr: "to_string h (Some (JStr s)) = Inr s"
  by (simp add: to_string_def json_string_def)

lemma to_string_undefined: "to_string h None = Inr ''undefined''"
  by (simp add: to_string_def)

lemma to_number_JNum: "to_number h (JNum d) = Inr d"
  by (simp add: to_number_def to_primitive_def)

lemma to_primitive_cases:
  "to_primitive h j = (if hostile j then Inl TypeError
                       else Inr (if is_object j then JStr (json_text h j) else j))"
  by (cases j) (simp_all add: to_primitive_def)

lemma js_add_fails: "js_add h a b = Inl e \<longleftrightarrow> e = TypeError \<and> (hostile a \<or> hostile b)"
  by (auto simp add: js_add_def to_primitive_cases)

lemma js_add_primitive: "js_add h a b = Inr v \<Longrightarrow> \<not> hostile v"
  by (auto simp add: js_add_def to_primitive_cases split: if_splits)

lemma js_add_numbers: "js_add h (JNum a) (JNum b) = Inr (JNum (dadd a b))"
  by (simp add: js_add_def to_primitive_def)

lemma totalInteractions_fails:
  "totalInteractions h lk cm sh = Inl e \<longleftrightarrow>
     e = TypeError \<and> (hostile lk \<or> hostile cm \<or> hostile sh)"
proof (cases "js_add h lk cm")
  case (Inl x)
  then show ?thesis using js_add_fails [of h lk cm x] by (auto simp add: totalInteractions_def)
next
  case (Inr s)
  then have "\<not> hostile s" by (rule js_add_primitive)
  moreover have "\<not> (hostile lk \<or> hostile cm)" using Inr js_add_fails [of h lk cm] by auto
  ultimately show ?thesis using Inr js_add_fails [of h s sh e] by (simp add: totalInteractions_def)
qed

lemma totalInteractions_primitive: "totalInteractions h lk cm sh = Inr v \<Longrightarrow> \<not> hostile v"
  by (auto simp add: totalInteractions_def js_add_primitive split: sum.splits)

lemma totalInteractions_numbers:
  "totalInteractions h (JNum a) (JNum b) (JNum c) = Inr (JNum (dadd (dadd a b) c))"
  by (simp add: totalInteractions_def js_add_numbers)

lemma parsed_null: "parsed d = JNull \<longleftrightarrow> d = JNull"
  by (cases d) simp_all

lemma js_gt_zero_total: "\<not> hostile v \<Longrightarrow> \<exists>g. js_gt_zero h v = Inr g"
  by (simp add: js_gt_zero_def to_number_def to_primitive_cases)

subsection \<open>Strings and worlds\<close>

lemma sent_fetch_json: "sent (snd (fetch_json r w)) = sent w @ [r]"
  by (simp add: fetch_json_def split: list.splits response.splits)

lemma length_toString_hex: "length (toString_hex bs) = 2 * length bs"
  by (induction bs) (simp_all add: toString_hex_def hex_digits_def)

lemma set_toString_hex: "set (toString_hex bs) \<subseteq> set ''0123456789abcdef''"
proof -
  have "\<And>n. set (hex_digits ''0123456789abcdef'' n) \<subseteq> set ''0123456789abcdef''"
  proof -
    fix n :: nat
    have a: "n div 16 mod 16 < length ''0123456789abcdef''" by simp
    have b: "n mod 16 < length ''0123456789abcdef''" by simp
    show "set (hex_digits ''0123456789abcdef'' n) \<subseteq> set ''0123456789abcdef''"
      unfolding hex_digits_def using nth_mem [OF a] nth_mem [OF b] by simp
  qed
  then show ?thesis unfolding toString_hex_def by (induction bs) auto
qed

lemma colon_not_hex: "CHR '':'' \<notin> set (toString_hex bs)"
  using set_toString_hex [of bs] by auto

lemma suffix_after_first_hex:
  "suffix_after_first CHR '':'' (toString_hex bs @ '':'' @ u) = u"
  using colon_not_hex [of bs]
  by (simp add: suffix_after_first_def dropWhile_append3 dropWhile_append)

lemma suffix_after_final_hex:
  "CHR '':'' \<notin> set u \<Longrightarrow> suffix_after_final CHR '':'' (toString_hex bs @ '':'' @ u) = u"
  by (simp add: suffix_after_final_def takeWhile_append takeWhile_eq_all_conv [THEN iffD2])

lemma suffix_after_final_iff:
  "suffix_after_final CHR '':'' (toString_hex bs @ '':'' @ u) = u \<longleftrightarrow> CHR '':'' \<notin> set u"
proof
  assume eq: "suffix_after_final CHR '':'' (toString_hex bs @ '':'' @ u) = u"
  have "CHR '':'' \<notin> set (suffix_after_final CHR '':'' (toString_hex bs @ '':'' @ u))"
    unfolding suffix_after_final_def set_rev by (blast dest: set_takeWhileD)
  then show "CHR '':'' \<notin> set u" unfolding eq .
next
  assume "CHR '':'' \<notin> set u"
  then show "suffix_after_final CHR '':'' (toString_hex bs @ '':'' @ u) = u"
    by (rule suffix_after_final_hex)
qed

lemma replicate_16: "replicate 16 x = [x, x, x, x, x, x, x, x, x, x, x, x, x, x, x, x]"
  by (simp add: numeral_eq_Suc)

lemma silent_lift: "silent (lift r)" by (simp add: silent_def lift_def)

lemma silent_ret: "silent (ret x)" by (simp add: silent_def ret_def)

lemma silent_throw: "silent (throw e)" by (simp add: silent_def throw_def)

lemma silent_and_then: "silent m \<Longrightarrow> (\<And>x. silent (f x)) \<Longrightarrow> silent (and_then m f)"
proof -
  assume m: "silent m" and f: "\<And>x. silent (f x)"
  show "silent (and_then m f)"
    unfolding silent_def
  proof
    fix w
    obtain r w' where mw: "m w = (r, w')" by (cases "m w")
    have w': "w' = w" using m mw unfolding silent_def by (metis snd_conv)
    show "snd (and_then m f w) = w"
    proof (cases r)
      case (Inl e)
      then show ?thesis using mw w' by (simp add: and_then_def)
    next
      case (Inr x)
      then show ?thesis using mw w' f [of x] by (simp add: and_then_def silent_def)
    qed
  qed
qed

lemma silent_if: "silent a \<Longrightarrow> silent b \<Longrightarrow> silent (if c then a else b)"
  by simp

lemma silent_let: "silent (f v) \<Longrightarrow> silent (let x = v in f x)"
  by simp

lemma snd_fetch_then_silent:
  assumes "\<And>x. silent (f x)"
  shows "snd (and_then (fetch_json r) f w) = snd (fetch_json r w)"
proof (cases "fetch_json r w")
  case (Pair res w')
  then show ?thesis
    using assms by (cases res) (simp_all add: and_then_def silent_def)
qed

lemmas silent_rules = silent_lift silent_ret silent_throw silent_and_then silent_if silent_let

section \<open>The authorize URL\<close>

text \<open>
  C3 (as amended). With the application id configured, \<^verbatim>\<open>getAuthUrl\<close> of either adapter returns,
  and its \<open>state\<close> is the lower-case hex of the 16 random bytes (32 hex digits), a colon,
  and the user id. The user id is the part of \<open>state\<close> after the first colon; it is the
  part after the final colon exactly when the user id contains no colon itself.
\<close>

theorem getAuthUrl_state:
  assumes "length (randomBytes h 16) = 16" and "META_APP_ID h = Some aid" and "aid \<noteq> []"
  shows "\<exists>fb ig. Facebook_getAuthUrl h userId redirectUri = Inr fb
           \<and> Instagram_getAuthUrl h userId redirectUri = Inr ig
           \<and> state fb = toString_hex (randomBytes h 16) @ '':'' @ userId
           \<and> state ig = toString_hex (randomBytes h 16) @ '':'' @ userId
           \<and> length (toString_hex (randomBytes h 16)) = 32
           \<and> set (toString_hex (randomBytes h 16)) \<subseteq> set ''0123456789abcdef''
           \<and> suffix_after_first CHR '':'' (state fb) = userId
           \<and> (suffix_after_final CHR '':'' (state fb) = userId \<longleftrightarrow> CHR '':'' \<notin> set userId)"
proof -
  let ?hex = "toString_hex (randomBytes h 16)"
  let ?st = "?hex @ '':'' @ userId"
  obtain fb where fb: "Facebook_getAuthUrl h userId redirectUri = Inr fb" and sfb: "state fb = ?st"
    using assms(2,3) by (simp add: Facebook_getAuthUrl_def Facebook_appId_def Let_def)
  obtain ig where ig: "Instagram_getAuthUrl h userId redirectUri = Inr ig" and sig: "state ig = ?st"
    using assms(2,3) by (simp add: Instagram_getAuthUrl_def Instagram_appId_def Let_def)
  have len: "length ?hex = 32"
    using assms(1) by (simp add: length_toString_hex)
  have first: "suffix_after_first CHR '':'' (state fb) = userId"
    unfolding sfb by (rule suffix_after_first_hex)
  have final: "suffix_after_final CHR '':'' (state fb) = userId \<longleftrightarrow> CHR '':'' \<notin> set userId"
    unfolding sfb by (rule suffix_after_final_iff)
  from fb ig sfb sig len set_toString_hex [of "randomBytes h 16"] first final
  show ?thesis by blast
qed

theorem getAuthUrl_state_witness:
  "\<exists>fb. Facebook_getAuthUrl example_host ''user42'' ''https://app.example/cb'' = Inr fb
     \<and> state fb = ''abababababababababababababababab:user42''
     \<and> suffix_after_final CHR '':'' (state fb) = ''user42''"
  using getAuthUrl_state [of example_host "''1234567890''" "''user42''" "''https://app.example/cb''"]
  by (auto simp add: example_host_def toString_hex_def hex_digits_def replicate_16)

text \<open>A user id with a colon: the part of \<open>state\<close> after the final colon is not the user id.\<close>

theorem getAuthUrl_state_counterexample:
  "Facebook_getAuthUrl example_host ''team:42'' ''cb''
     = Inr \<lparr>url = ''https://www.facebook.com/v21.0/dialog/oauth?client_id=1234567890&redirect_uri=cb&state=abababababababababababababababab:team:42&scope=public_profile,pages_show_list,pages_read_engagement,pages_manage_posts&response_type=code'',
            state = ''abababababababababababababababab:team:42''\<rparr>
   \<and> suffix_after_final CHR '':'' ''abababababababababababababababab:team:42'' = ''42''"
  by (simp add: Facebook_getAuthUrl_def Facebook_appId_def example_host_def toString_hex_def
      hex_digits_def encodeURIComponent_def unreserved_def suffix_after_final_def replicate_16)

section \<open>Publishing on Facebook\<close>



subsection \<open>Running a call against a script of replies\<close>

lemma fetch_Body:
  "pending w = Body d # rest \<Longrightarrow>
     and_then (fetch_json r) f w = f (parsed d) \<lparr>pending = rest, sent = sent w @ [r]\<rparr>"
  by (simp add: and_then_def fetch_json_def)

lemma fetch_Rejected:
  "pending w = Rejected # rest \<Longrightarrow>
     and_then (fetch_json r) f w = (Inl NetworkError, \<lparr>pending = rest, sent = sent w @ [r]\<rparr>)"
  by (simp add: and_then_def fetch_json_def)

lemma fetch_Nil:
  "pending w = [] \<Longrightarrow>
     and_then (fetch_json r) f w = (Inl NetworkError, w\<lparr>sent := sent w @ [r]\<rparr>)"
  by (simp add: and_then_def fetch_json_def)

lemma and_then_lift_Inr: "and_then (lift (Inr x)) f = f x"
  by (simp add: and_then_def lift_def)

lemma and_then_lift_Inl: "and_then (lift (Inl e)) f = throw e"
  by (simp add: and_then_def lift_def throw_def)

lemma and_then_ret: "and_then (ret x) f = f x"
  by (simp add: and_then_def ret_def)

lemma and_then_throw: "and_then (throw e) f = throw e"
  by (simp add: and_then_def throw_def)

lemma get_object: "get (Some (JObj kvs)) k = Inr (map_of kvs k)"
  by (simp add: get_def)

lemma get_nonnull: "j \<noteq> JNull \<Longrightarrow> get (Some j) k = Inr (read_prop j k)"
  by (simp add: get_def)

lemma get_null: "get (Some JNull) k = Inl TypeError" "get None k = Inl TypeError"
  by (simp_all add: get_def)

lemma read_prop_Some_nonnull: "read_prop d k = Some v \<Longrightarrow> d \<noteq> JNull"
  by (cases d) simp_all

lemma truthy_object: "truthy (Some (JObj e))"
  by (simp add: truthy_def)

lemmas run_simps = fetch_Body fetch_Rejected fetch_Nil and_then_lift_Inr and_then_lift_Inl
  and_then_ret and_then_throw get_object get_null truthy_object

section \<open>The token exchanges\<close>

lemma configured:
  assumes "META_APP_ID h = Some aid" "aid \<noteq> []" "META_APP_SECRET h = Some sec" "sec \<noteq> []"
  shows "Facebook_appId h = Inr aid" "Facebook_appSecret h = Inr sec"
    "Instagram_appId h = Inr aid" "Instagram_appSecret h = Inr sec"
  using assms
  by (simp_all add: Facebook_appId_def Facebook_appSecret_def Instagram_appId_def
      Instagram_appSecret_def)

lemma Facebook_handleCallback_first_error:
  assumes cfg: "META_APP_ID h = Some aid" "aid \<noteq> []" "META_APP_SECRET h = Some sec" "sec \<noteq> []"
    and w: "pending w = Body d # rest" and e: "read_prop (parsed d) ''error'' = Some (JObj e)"
  shows "fst (Facebook_handleCallback h code uri w)
           = Inl (PlatformError ''facebook'' (map_of e ''message'') (Some (JObj e)))"
  using w e read_prop_Some_nonnull [OF e]
  by (simp add: Facebook_handleCallback_def configured [OF cfg] run_simps get_nonnull throw_def)

lemma Instagram_handleCallback_first_error:
  assumes cfg: "META_APP_ID h = Some aid" "aid \<noteq> []" "META_APP_SECRET h = Some sec" "sec \<noteq> []"
    and w: "pending w = Body d # rest" and e: "read_prop (parsed d) ''error'' = Some (JObj e)"
  shows "fst (Instagram_handleCallback h code uri w)
           = Inl (PlatformError ''instagram'' (map_of e ''message'') None)"
  using w e read_prop_Some_nonnull [OF e]
  by (simp add: Instagram_handleCallback_def configured [OF cfg] run_simps get_nonnull throw_def)

lemma Facebook_handleCallback_second_error:
  assumes cfg: "META_APP_ID h = Some aid" "aid \<noteq> []" "META_APP_SECRET h = Some sec" "sec \<noteq> []"
    and w: "pending w = Body d # Body l # rest"
    and d: "parsed d \<noteq> JNull" "\<not> truthy (read_prop (parsed d) ''error'')"
      "to_string h (read_prop (parsed d) ''access_token'') = Inr short"
    and e: "read_prop (parsed l) ''error'' = Some (JObj e)"
  shows "fst (Facebook_handleCallback h code uri w)
           = Inl (PlatformError ''facebook'' (map_of e ''message'') None)"
  using w d e read_prop_Some_nonnull [OF e]
  by (simp add: Facebook_handleCallback_def configured [OF cfg] run_simps get_nonnull throw_def)

lemma expiry_default:
  assumes "0 \<le> date_now h" "date_now h + 5184000000 \<le> 8640000000000000"
  shows "expiry h None = Inr (Some (date_now h + 5184000000))"
    and "expiry h (Some JNull) = Inr (Some (date_now h + 5184000000))"
proof -
  have now: "Date_now h = Num (of_int (date_now h))"
    using assms by (intro Date_now_exact) simp
  have "dmul (Num (of_int 5184000)) (Num (of_int 1000)) = Num (of_int (5184000 * 1000))"
    by (rule dmul_int) simp_all
  then have product: "dmul (Num 5184000) (Num 1000) = Num (of_int 5184000000)" by simp
  have sum: "dadd (Num (of_int (date_now h))) (Num (of_int 5184000000))
               = Num (of_int (date_now h + 5184000000))"
    using assms by (intro dadd_int) simp_all
  have date: "new_Date (Num (of_int (date_now h + 5184000000))) = Some (date_now h + 5184000000)"
    using assms by (intro new_Date_int) simp
  have hint: "default_to None (JNum (Num 5184000)) = JNum (Num 5184000)"
    "default_to (Some JNull) (JNum (Num 5184000)) = JNum (Num 5184000)"
    by (simp_all add: default_to_def)
  show "expiry h None = Inr (Some (date_now h + 5184000000))"
    and "expiry h (Some JNull) = Inr (Some (date_now h + 5184000000))"
    unfolding expiry_def
    by (simp_all only: hint to_number_JNum sum.case now product sum date)
qed

lemma expiry_whole:
  assumes "0 \<le> date_now h" "date_now h \<le> 8640000000000000"
    and "\<bar>k\<bar> \<le> 8640000000000" and "\<bar>date_now h + 1000 * k\<bar> \<le> 8640000000000000"
  shows "expiry h (Some (JNum (Num (of_int k)))) = Inr (Some (date_now h + 1000 * k))"
proof -
  have now: "Date_now h = Num (of_int (date_now h))"
    using assms by (intro Date_now_exact) simp
  have "dmul (Num (of_int k)) (Num (of_int 1000)) = Num (of_int (k * 1000))"
    using assms(3) by (intro dmul_int) simp_all
  then have product: "dmul (Num (of_int k)) (Num 1000) = Num (of_int (1000 * k))"
    by (simp add: mult.commute)
  have sum: "dadd (Num (of_int (date_now h))) (Num (of_int (1000 * k)))
               = Num (of_int (date_now h + 1000 * k))"
    using assms by (intro dadd_int) simp_all
  have date: "new_Date (Num (of_int (date_now h + 1000 * k))) = Some (date_now h + 1000 * k)"
    using assms(4) by (rule new_Date_int)
  have hint: "default_to (Some (JNum (Num (of_int k)))) (JNum (Num 5184000)) = JNum (Num (of_int k))"
    by (simp add: default_to_def)
  show ?thesis
    unfolding expiry_def
    by (simp only: hint to_number_JNum sum.case now product sum date)
qed










lemma example_expiry:
  "expiry example_host None = Inr (Some 1805184000000)"
  "expiry example_host (Some (JNum (Num 0))) = Inr (Some 1800000000000)"
  "expiry example_host (Some (JNum (Num 3600))) = Inr (Some 1800003600000)"
  using expiry_default(1) [of example_host] expiry_whole [of example_host 0]
    expiry_whole [of example_host 3600]
  by (simp_all add: example_host_def)

text \<open>
  C1. An error payload at either exchange should fail \<^verbatim>\<open>handleCallback\<close> with the provider's
  message. The three lemmas above show it for both exchanges on Facebook and for the
  first exchange on Instagram. The Instagram adapter never reads \<^verbatim>\<open>longData.error\<close>: on the
  long-lived reply below, which carries an error object, it returns a token pair made
  of the short-lived token and the default lifetime, where the Facebook adapter fails on
  the same replies.
\<close>

theorem Instagram_handleCallback_long_lived_error:
  "fst (Instagram_handleCallback example_host ''code'' ''https://app.example/cb''
          (replies [Body (token_reply ''SHORT''), Body (error_reply ''Session has expired'')]))
     = Inr \<lparr>accessToken = Some (JStr ''SHORT''),
            expiresAt = Some 1805184000000,
            scopes = [''instagram_basic'', ''instagram_content_publish'',
                      ''instagram_manage_insights'']\<rparr>
   \<and> fst (Facebook_handleCallback example_host ''code'' ''https://app.example/cb''
          (replies [Body (token_reply ''SHORT''), Body (error_reply ''Session has expired'')]))
     = Inl (PlatformError ''facebook'' (Some (JStr ''Session has expired'')) None)"
proof -
  have cfg: "Instagram_appId example_host = Inr ''1234567890''"
    "Instagram_appSecret example_host = Inr ''s3cr3t''"
    "Facebook_appId example_host = Inr ''1234567890''"
    "Facebook_appSecret example_host = Inr ''s3cr3t''"
    by (simp_all add: Instagram_appId_def Instagram_appSecret_def Facebook_appId_def
        Facebook_appSecret_def example_host_def)
  show ?thesis
    by (simp add: Instagram_handleCallback_def Facebook_handleCallback_def cfg
        replies_def token_reply_def error_reply_def run_simps throw_def ret_def
        truthy_def coalesce_def nullish_def to_string_JStr example_expiry)
qed





section \<open>Account resolution\<close>

lemma Facebook_getAccount_page:
  assumes w: "pending w = Body pd # rest"
    and ok: "\<not> truthy (read_prop (parsed pd) ''error'')"
    and pages: "read_prop (parsed pd) ''data'' = Some (JArr (page # others))"
    and page: "json_truthy page"
  shows "Facebook_getAccount h access_token w =
           (Inr \<lparr>platformAccountId = read_prop page ''id'',
                 accountName = read_prop page ''name'',
                 accountType = ''page'',
                 avatarUrl = opt_get (opt_get (read_prop page ''picture'') ''data'') ''url'',
                 pageAccessToken = read_prop page ''access_token''\<rparr>,
            \<lparr>pending = rest, sent = sent w @ [Facebook_pages_request access_token]\<rparr>)"
proof -
  have pd: "parsed pd \<noteq> JNull" using pages by (rule read_prop_Some_nonnull)
  have pg: "page \<noteq> JNull" using page by auto
  show ?thesis
    using w ok pages page
    by (simp add: Facebook_getAccount_def Facebook_pages_request_def GET_def META_API_BASE_def run_simps
        get_nonnull [OF pd] get_nonnull [OF pg] opt_first_def truthy_def Let_def ret_def)
qed

lemma Facebook_getAccount_profile:
  assumes w: "pending w = Body pd # Body prof # rest"
    and ok: "\<not> truthy (read_prop (parsed pd) ''error'')"
    and pages: "read_prop (parsed pd) ''data'' = Some (JArr [])"
    and prof: "parsed prof \<noteq> JNull" "\<not> truthy (read_prop (parsed prof) ''error'')"
    and name: "to_string h (read_prop (parsed prof) ''name'') = Inr s"
  shows "Facebook_getAccount h access_token w =
           (Inr \<lparr>platformAccountId = read_prop (parsed prof) ''id'',
                 accountName = Some (JStr (s @ '' (perfil)'')),
                 accountType = ''profile'',
                 avatarUrl = opt_get (opt_get (read_prop (parsed prof) ''picture'') ''data'') ''url'',
                 pageAccessToken = None\<rparr>,
            \<lparr>pending = rest,
             sent = sent w @ [Facebook_pages_request access_token,
                              Facebook_profile_request access_token]\<rparr>)"
proof -
  have pd: "parsed pd \<noteq> JNull" using pages by (rule read_prop_Some_nonnull)
  show ?thesis
    using w ok pages prof name
    by (simp add: Facebook_getAccount_def Facebook_pages_request_def GET_def META_API_BASE_def Facebook_profile_request_def
        run_simps get_nonnull [OF pd] get_nonnull [OF prof(1)] opt_first_def truthy_def Let_def
        ret_def)
qed

lemma Facebook_getAccount_profile_fails:
  assumes w: "pending w = Body pd # Body prof # rest"
    and ok: "\<not> truthy (read_prop (parsed pd) ''error'')"
    and pages: "read_prop (parsed pd) ''data'' = Some (JArr [])"
    and prof: "parsed prof \<noteq> JNull" "\<not> truthy (read_prop (parsed prof) ''error'')"
    and name: "read_prop (parsed prof) ''name'' = Some nm" "hostile nm"
  shows "Facebook_getAccount h access_token w =
           (Inl TypeError,
            \<lparr>pending = rest,
             sent = sent w @ [Facebook_pages_request access_token,
                              Facebook_profile_request access_token]\<rparr>)"
proof -
  have pd: "parsed pd \<noteq> JNull" using pages by (rule read_prop_Some_nonnull)
  show ?thesis
    using w ok pages prof name
    by (simp add: Facebook_getAccount_def Facebook_pages_request_def GET_def META_API_BASE_def Facebook_profile_request_def
        run_simps get_nonnull [OF pd] get_nonnull [OF prof(1)] opt_first_def truthy_def Let_def
        throw_def to_string_hostile)
qed

lemma Instagram_pages_skip:
  assumes "\<forall>p \<in> set pre. p \<noteq> JNull \<and> \<not> truthy (read_prop p ''instagram_business_account'')"
  shows "Instagram_pages (pre @ pages) = Instagram_pages pages"
  using assms by (induction pre) (simp_all add: get_nonnull)

lemma Instagram_pages_found:
  assumes "read_prop page ''instagram_business_account'' = Some ig" and "json_truthy ig"
  shows "Instagram_pages (page # post) =
           Inr (Some \<lparr>platformAccountId = read_prop ig ''id'',
                      accountName = coalesce (read_prop ig ''username'') (read_prop page ''name''),
                      accountType = ''business'',
                      avatarUrl = read_prop ig ''profile_picture_url'',
                      pageAccessToken = None\<rparr>)"
  using assms read_prop_Some_nonnull [OF assms(1)]
  by (simp add: get_nonnull truthy_def opt_get_def)

lemma Instagram_getAccount_business:
  assumes w: "pending w = Body pd # rest"
    and ok: "\<not> truthy (read_prop (parsed pd) ''error'')"
    and pages: "read_prop (parsed pd) ''data'' = Some (JArr (pre @ page # post))"
    and pre: "\<forall>p \<in> set pre. p \<noteq> JNull \<and> \<not> truthy (read_prop p ''instagram_business_account'')"
    and ig: "read_prop page ''instagram_business_account'' = Some ig" "json_truthy ig"
  shows "Instagram_getAccount access_token w =
           (Inr \<lparr>platformAccountId = read_prop ig ''id'',
                 accountName = coalesce (read_prop ig ''username'') (read_prop page ''name''),
                 accountType = ''business'',
                 avatarUrl = read_prop ig ''profile_picture_url'',
                 pageAccessToken = None\<rparr>,
            \<lparr>pending = rest, sent = sent w @ [Instagram_pages_request access_token]\<rparr>)"
proof -
  have pd: "parsed pd \<noteq> JNull" using pages by (rule read_prop_Some_nonnull)
  have found: "Instagram_pages (pre @ page # post) =
           Inr (Some \<lparr>platformAccountId = read_prop ig ''id'',
                      accountName = coalesce (read_prop ig ''username'') (read_prop page ''name''),
                      accountType = ''business'',
                      avatarUrl = read_prop ig ''profile_picture_url'',
                      pageAccessToken = None\<rparr>)"
    using Instagram_pages_skip [OF pre, of "page # post"] Instagram_pages_found [OF ig, of post]
    by (simp only:)
  show ?thesis
    using w ok pages
    by (simp add: Instagram_getAccount_def Instagram_pages_request_def GET_def META_API_BASE_def run_simps
        get_nonnull [OF pd] found ret_def del: Instagram_pages.simps)
qed

lemma Instagram_getAccount_none:
  assumes w: "pending w = Body pd # rest"
    and ok: "\<not> truthy (read_prop (parsed pd) ''error'')"
    and pages: "read_prop (parsed pd) ''data'' = Some (JArr pages)"
    and none: "\<forall>p \<in> set pages. p \<noteq> JNull \<and> \<not> truthy (read_prop p ''instagram_business_account'')"
  shows "Instagram_getAccount access_token w =
           (Inl (PlatformError ''instagram'' (Some (JStr no_business_account)) None),
            \<lparr>pending = rest, sent = sent w @ [Instagram_pages_request access_token]\<rparr>)"
proof -
  have pd: "parsed pd \<noteq> JNull" using pages by (rule read_prop_Some_nonnull)
  have "Instagram_pages (pages @ []) = Instagram_pages []"
    using none by (rule Instagram_pages_skip)
  then have "Instagram_pages pages = Inr None" by simp
  then show ?thesis
    using w ok pages
    by (simp add: Instagram_getAccount_def Instagram_pages_request_def GET_def META_API_BASE_def
        run_simps get_nonnull [OF pd] throw_def no_business_account_def)
qed

text \<open>
  C5 (as amended). Facebook: when the pages reply lists a first page, \<^verbatim>\<open>getAccount\<close> returns
  that page's identity as a \<^verbatim>\<open>page\<close> account with the page's own access token attached,
  after the one pages request (the profile is not asked for); when the list is empty it
  asks for the profile and returns the profile identity, its name the string of the
  profile's \<^verbatim>\<open>name\<close> followed by \<^verbatim>\<open>" (perfil)"\<close>, with no page token; it fails with a
  \<open>TypeError\<close>, after both requests, when that name is a value that has no string. Instagram:
  \<^verbatim>\<open>getAccount\<close> returns the business identity carried by the first page that has an
  \<^verbatim>\<open>instagram_business_account\<close> (not the page's own identity, and with no page token),
  and fails with the no-business-account error when no page carries one.
\<close>

theorem getAccount_resolution:
  "(pending w = Body pd # rest \<and> \<not> truthy (read_prop (parsed pd) ''error'')
      \<and> read_prop (parsed pd) ''data'' = Some (JArr (page # others)) \<and> json_truthy page
     \<longrightarrow> Facebook_getAccount h access_token w =
           (Inr \<lparr>platformAccountId = read_prop page ''id'',
                 accountName = read_prop page ''name'',
                 accountType = ''page'',
                 avatarUrl = opt_get (opt_get (read_prop page ''picture'') ''data'') ''url'',
                 pageAccessToken = read_prop page ''access_token''\<rparr>,
            \<lparr>pending = rest, sent = sent w @ [Facebook_pages_request access_token]\<rparr>))
   \<and> (pending w = Body pd # Body prof # rest \<and> \<not> truthy (read_prop (parsed pd) ''error'')
      \<and> read_prop (parsed pd) ''data'' = Some (JArr []) \<and> parsed prof \<noteq> JNull
      \<and> \<not> truthy (read_prop (parsed prof) ''error'')
      \<and> to_string h (read_prop (parsed prof) ''name'') = Inr s
     \<longrightarrow> Facebook_getAccount h access_token w =
           (Inr \<lparr>platformAccountId = read_prop (parsed prof) ''id'',
                 accountName = Some (JStr (s @ '' (perfil)'')),
                 accountType = ''profile'',
                 avatarUrl = opt_get (opt_get (read_prop (parsed prof) ''picture'') ''data'') ''url'',
                 pageAccessToken = None\<rparr>,
            \<lparr>pending = rest,
             sent = sent w @ [Facebook_pages_request access_token,
                              Facebook_profile_request access_token]\<rparr>))
   \<and> (pending w = Body pd # Body prof # rest \<and> \<not> truthy (read_prop (parsed pd) ''error'')
      \<and> read_prop (parsed pd) ''data'' = Some (JArr []) \<and> parsed prof \<noteq> JNull
      \<and> \<not> truthy (read_prop (parsed prof) ''error'')
      \<and> read_prop (parsed prof) ''name'' = Some nm \<and> hostile nm
     \<longrightarrow> Facebook_getAccount h access_token w =
           (Inl TypeError,
            \<lparr>pending = rest,
             sent = sent w @ [Facebook_pages_request access_token,
                              Facebook_profile_request access_token]\<rparr>))
   \<and> (pending w = Body pd # rest \<and> \<not> truthy (read_prop (parsed pd) ''error'')
      \<and> read_prop (parsed pd) ''data'' = Some (JArr (pre @ page # post))
      \<and> (\<forall>p \<in> set pre. p \<noteq> JNull \<and> \<not> truthy (read_prop p ''instagram_business_account''))
      \<and> read_prop page ''instagram_business_account'' = Some ig \<and> json_truthy ig
     \<longrightarrow> Instagram_getAccount access_token w =
           (Inr \<lparr>platformAccountId = read_prop ig ''id'',
                 accountName = coalesce (read_prop ig ''username'') (read_prop page ''name''),
                 accountType = ''business'',
                 avatarUrl = read_prop ig ''profile_picture_url'',
                 pageAccessToken = None\<rparr>,
            \<lparr>pending = rest, sent = sent w @ [Instagram_pages_request access_token]\<rparr>))
   \<and> (pending w = Body pd # rest \<and> \<not> truthy (read_prop (parsed pd) ''error'')
      \<and> read_prop (parsed pd) ''data'' = Some (JArr pages)
      \<and> (\<forall>p \<in> set pages. p \<noteq> JNull \<and> \<not> truthy (read_prop p ''instagram_business_account''))
     \<longrightarrow> Instagram_getAccount access_token w =
           (Inl (PlatformError ''instagram'' (Some (JStr no_business_account)) None),
            \<lparr>pending = rest, sent = sent w @ [Instagram_pages_request access_token]\<rparr>))"
proof (intro conjI impI)
  {
    assume "pending w = Body pd # rest \<and> \<not> truthy (read_prop (parsed pd) ''error'')
      \<and> read_prop (parsed pd) ''data'' = Some (JArr (page # others)) \<and> json_truthy page"
    then show "Facebook_getAccount h access_token w =
           (Inr \<lparr>platformAccountId = read_prop page ''id'',
                 accountName = read_prop page ''name'',
                 accountType = ''page'',
                 avatarUrl = opt_get (opt_get (read_prop page ''picture'') ''data'') ''url'',
                 pageAccessToken = read_prop page ''access_token''\<rparr>,
            \<lparr>pending = rest, sent = sent w @ [Facebook_pages_request access_token]\<rparr>)"
      using Facebook_getAccount_page by blast
  }
  {
    assume "pending w = Body pd # Body prof # rest \<and> \<not> truthy (read_prop (parsed pd) ''error'')
      \<and> read_prop (parsed pd) ''data'' = Some (JArr []) \<and> parsed prof \<noteq> JNull
      \<and> \<not> truthy (read_prop (parsed prof) ''error'')
      \<and> to_string h (read_prop (parsed prof) ''name'') = Inr s"
    then show "Facebook_getAccount h access_token w =
           (Inr \<lparr>platformAccountId = read_prop (parsed prof) ''id'',
                 accountName = Some (JStr (s @ '' (perfil)'')),
                 accountType = ''profile'',
                 avatarUrl = opt_get (opt_get (read_prop (parsed prof) ''picture'') ''data'') ''url'',
                 pageAccessToken = None\<rparr>,
            \<lparr>pending = rest,
             sent = sent w @ [Facebook_pages_request access_token,
                              Facebook_profile_request access_token]\<rparr>)"
      using Facebook_getAccount_profile by blast
  }
  {
    assume "pending w = Body pd # Body prof # rest \<and> \<not> truthy (read_prop (parsed pd) ''error'')
      \<and> read_prop (parsed pd) ''data'' = Some (JArr []) \<and> parsed prof \<noteq> JNull
      \<and> \<not> truthy (read_prop (parsed prof) ''error'')
      \<and> read_prop (parsed prof) ''name'' = Some nm \<and> hostile nm"
    then show "Facebook_getAccount h access_token w =
           (Inl TypeError,
            \<lparr>pending = rest,
             sent = sent w @ [Facebook_pages_request access_token,
                              Facebook_profile_request access_token]\<rparr>)"
      using Facebook_getAccount_profile_fails by blast
  }
  {
    assume "pending w = Body pd # rest \<and> \<not> truthy (read_prop (parsed pd) ''error'')
      \<and> read_prop (parsed pd) ''data'' = Some (JArr (pre @ page # post))
      \<and> (\<forall>p \<in> set pre. p \<noteq> JNull \<and> \<not> truthy (read_prop p ''instagram_business_account''))
      \<and> read_prop page ''instagram_business_account'' = Some ig \<and> json_truthy ig"
    then show "Instagram_getAccount access_token w =
           (Inr \<lparr>platformAccountId = read_prop ig ''id'',
                 accountName = coalesce (read_prop ig ''username'') (read_prop page ''name''),
                 accountType = ''business'',
                 avatarUrl = read_prop ig ''profile_picture_url'',
                 pageAccessToken = None\<rparr>,
            \<lparr>pending = rest, sent = sent w @ [Instagram_pages_request access_token]\<rparr>)"
      using Instagram_getAccount_business [of w pd rest pre page post ig access_token] by blast
  }
  {
    assume "pending w = Body pd # rest \<and> \<not> truthy (read_prop (parsed pd) ''error'')
      \<and> read_prop (parsed pd) ''data'' = Some (JArr pages)
      \<and> (\<forall>p \<in> set pages. p \<noteq> JNull \<and> \<not> truthy (read_prop p ''instagram_business_account''))"
    then show "Instagram_getAccount access_token w =
           (Inl (PlatformError ''instagram'' (Some (JStr no_business_account)) None),
            \<lparr>pending = rest, sent = sent w @ [Instagram_pages_request access_token]\<rparr>)"
      using Instagram_getAccount_none [of w pd rest pages access_token] by blast
  }
qed

theorem getAccount_resolution_witness:
  "Facebook_getAccount example_host ''tok'' (replies [Body (pages_reply [shop_page])]) =
     (Inr \<lparr>platformAccountId = Some (JStr ''p1''), accountName = Some (JStr ''Shop''),
           accountType = ''page'', avatarUrl = None,
           pageAccessToken = Some (JStr ''PAGE-TOKEN'')\<rparr>,
      \<lparr>pending = [], sent = [Facebook_pages_request ''tok'']\<rparr>)
   \<and> Facebook_getAccount example_host ''tok''
         (replies [Body (pages_reply []),
                   Body (JObj [(''id'', JStr ''u1''), (''name'', JStr ''Ana'')])]) =
     (Inr \<lparr>platformAccountId = Some (JStr ''u1''), accountName = Some (JStr ''Ana (perfil)''),
           accountType = ''profile'', avatarUrl = None, pageAccessToken = None\<rparr>,
      \<lparr>pending = [],
       sent = [Facebook_pages_request ''tok'', Facebook_profile_request ''tok'']\<rparr>)
   \<and> Facebook_getAccount example_host ''tok''
         (replies [Body (pages_reply []),
                   Body (JObj [(''id'', JStr ''u1''), (''name'', no_primitive)])]) =
     (Inl TypeError,
      \<lparr>pending = [],
       sent = [Facebook_pages_request ''tok'', Facebook_profile_request ''tok'']\<rparr>)
   \<and> Instagram_getAccount ''tok''
         (replies [Body (pages_reply [shop_page, shop_page_with_instagram])]) =
     (Inr \<lparr>platformAccountId = Some (JStr ''17''), accountName = Some (JStr ''shop_ig''),
           accountType = ''business'', avatarUrl = None, pageAccessToken = None\<rparr>,
      \<lparr>pending = [], sent = [Instagram_pages_request ''tok'']\<rparr>)
   \<and> Instagram_getAccount ''tok'' (replies [Body (pages_reply [shop_page])]) =
     (Inl (PlatformError ''instagram'' (Some (JStr no_business_account)) None),
      \<lparr>pending = [], sent = [Instagram_pages_request ''tok'']\<rparr>)"
  using getAccount_resolution
      [where w = "replies [Body (pages_reply [shop_page])]" and pd = "pages_reply [shop_page]"
         and rest = "[]" and page = shop_page and others = "[]" and h = example_host
         and access_token = "''tok''"]
    getAccount_resolution
      [where w = "replies [Body (pages_reply []),
                           Body (JObj [(''id'', JStr ''u1''), (''name'', JStr ''Ana'')])]"
         and pd = "pages_reply []" and rest = "[]" and h = example_host
         and access_token = "''tok''"
         and prof = "JObj [(''id'', JStr ''u1''), (''name'', JStr ''Ana'')]" and s = "''Ana''"]
    getAccount_resolution
      [where w = "replies [Body (pages_reply []),
                           Body (JObj [(''id'', JStr ''u1''), (''name'', no_primitive)])]"
         and pd = "pages_reply []" and rest = "[]" and h = example_host
         and access_token = "''tok''"
         and prof = "JObj [(''id'', JStr ''u1''), (''name'', no_primitive)]"
         and nm = no_primitive]
    getAccount_resolution
      [where w = "replies [Body (pages_reply [shop_page, shop_page_with_instagram])]"
         and pd = "pages_reply [shop_page, shop_page_with_instagram]" and rest = "[]"
         and page = shop_page_with_instagram and access_token = "''tok''"
         and pre = "[shop_page]" and post = "[]"
         and ig = "JObj [(''id'', JStr ''17''), (''username'', JStr ''shop_ig'')]"]
    getAccount_resolution
      [where w = "replies [Body (pages_reply [shop_page])]" and pd = "pages_reply [shop_page]"
         and rest = "[]" and access_token = "''tok''" and pages = "[shop_page]"]
  by (simp add: replies_def pages_reply_def shop_page_def shop_page_with_instagram_def
      no_primitive_def truthy_def opt_get_def coalesce_def nullish_def to_string_JStr
      nearest_Ints)

lemma Instagram_getAccount_example:
  "Instagram_getAccount ''tok'' (replies [Body (pages_reply [shop_page_with_instagram])]) =
     (Inr \<lparr>platformAccountId = Some (JStr ''17''), accountName = Some (JStr ''shop_ig''),
           accountType = ''business'', avatarUrl = None, pageAccessToken = None\<rparr>,
      \<lparr>pending = [], sent = [Instagram_pages_request ''tok'']\<rparr>)"
  by (simp add: Instagram_getAccount_def Instagram_pages_request_def GET_def META_API_BASE_def replies_def pages_reply_def
      shop_page_with_instagram_def run_simps ret_def truthy_def opt_get_def coalesce_def
      nullish_def)

lemma Instagram_getAccount_rejected:
  "Instagram_getAccount ''tok'' (replies [Rejected]) =
     (Inl NetworkError, \<lparr>pending = [], sent = [Instagram_pages_request ''tok'']\<rparr>)"
  by (simp add: Instagram_getAccount_def Instagram_pages_request_def GET_def META_API_BASE_def replies_def run_simps)

text \<open>
  An Instagram caller with one page: the account returned is the Instagram business
  account of the page, not the page, and no page token is attached.
\<close>

theorem getAccount_resolution_counterexample:
  "Instagram_getAccount ''tok'' (replies [Body (pages_reply [shop_page_with_instagram])]) =
     (Inr \<lparr>platformAccountId = Some (JStr ''17''), accountName = Some (JStr ''shop_ig''),
           accountType = ''business'', avatarUrl = None, pageAccessToken = None\<rparr>,
      \<lparr>pending = [], sent = [Instagram_pages_request ''tok'']\<rparr>)
   \<and> read_prop shop_page_with_instagram ''id'' = Some (JStr ''p1'')"
  using Instagram_getAccount_example by (simp add: shop_page_with_instagram_def)

section \<open>Publishing on Instagram\<close>

lemma silent_case_option:
  "silent a \<Longrightarrow> (\<And>x. silent (f x)) \<Longrightarrow> silent (case v of None \<Rightarrow> a | Some x \<Rightarrow> f x)"
  by (cases v) simp_all

lemma Instagram_getAccount_sent:
  "sent (snd (Instagram_getAccount access_token w)) = sent w @ [Instagram_pages_request access_token]"
  by (simp add: Instagram_getAccount_def Instagram_pages_request_def GET_def META_API_BASE_def snd_fetch_then_silent
      sent_fetch_json silent_rules silent_case_option)

lemma Instagram_publishContent_no_media:
  assumes "\<not> has_media content"
  shows "Instagram_publishContent h access_token content =
           and_then (Instagram_getAccount access_token) (\<lambda>account. throw media_required)"
  using assms
  by (simp add: Instagram_publishContent_def Let_def and_then_throw media_required_def)

text \<open>
  C2 (as amended). For content without a media URL, the Instagram \<^verbatim>\<open>publishContent\<close> never
  publishes: it fails, after exactly one request, the account lookup, which precedes the
  media check; no container and no publish request is sent. Once the lookup has resolved
  an account, the failure is the validation error tagged \<^verbatim>\<open>instagram\<close>.
\<close>

theorem Instagram_publishContent_requires_media:
  assumes "\<not> has_media content"
  shows "(\<exists>e. fst (Instagram_publishContent h access_token content w) = Inl e)
       \<and> sent (snd (Instagram_publishContent h access_token content w)) =
           sent w @ [Instagram_pages_request access_token]
       \<and> (fst (Instagram_getAccount access_token w) = Inr account
           \<longrightarrow> fst (Instagram_publishContent h access_token content w) = Inl media_required)"
proof -
  obtain r w' where run: "Instagram_getAccount access_token w = (r, w')"
    by (cases "Instagram_getAccount access_token w")
  have w': "sent w' = sent w @ [Instagram_pages_request access_token]"
    using Instagram_getAccount_sent [of access_token w] run by simp
  show ?thesis
  proof (cases r)
    case (Inl e)
    then show ?thesis
      using run w' by (simp add: Instagram_publishContent_no_media [OF assms] and_then_def)
  next
    case (Inr a)
    then show ?thesis
      using run w'
      by (simp add: Instagram_publishContent_no_media [OF assms] and_then_def throw_def)
  qed
qed

theorem Instagram_publishContent_requires_media_witness:
  "fst (Instagram_publishContent example_host ''tok'' text_only
          (replies [Body (pages_reply [shop_page_with_instagram])])) = Inl media_required
   \<and> sent (snd (Instagram_publishContent example_host ''tok'' text_only
          (replies [Body (pages_reply [shop_page_with_instagram])])))
       = [Instagram_pages_request ''tok'']"
  using Instagram_publishContent_requires_media [of text_only example_host "''tok''"
      "replies [Body (pages_reply [shop_page_with_instagram])]"
      "\<lparr>platformAccountId = Some (JStr ''17''), accountName = Some (JStr ''shop_ig''),
        accountType = ''business'', avatarUrl = None, pageAccessToken = None\<rparr>"]
    Instagram_getAccount_example
  by (simp add: text_only_def has_media_def replies_def)

text \<open>
  Content without media, on a working account: the validation error arrives after the
  account lookup has gone out; and with no reply to the lookup the failure is not a
  validation error at all.
\<close>

theorem Instagram_publishContent_requires_media_counterexample:
  "Instagram_publishContent example_host ''tok'' text_only
     (replies [Body (pages_reply [shop_page_with_instagram])])
     = (Inl media_required, \<lparr>pending = [], sent = [Instagram_pages_request ''tok'']\<rparr>)
   \<and> Instagram_publishContent example_host ''tok'' text_only (replies [Rejected])
     = (Inl NetworkError, \<lparr>pending = [], sent = [Instagram_pages_request ''tok'']\<rparr>)"
proof -
  have "\<not> has_media text_only" by (simp add: text_only_def has_media_def)
  then show ?thesis
    by (simp add: Instagram_publishContent_no_media and_then_def Instagram_getAccount_example
        Instagram_getAccount_rejected throw_def)
qed

section \<open>Post metrics on Facebook\<close>

lemma snd_fetch_json: "snd (fetch_json r w) = \<lparr>pending = drop 1 (pending w), sent = sent w @ [r]\<rparr>"
  by (cases "pending w") (auto simp add: fetch_json_def split: response.splits)

lemma try_catch_result: "\<exists>x. fst (try_catch m d w) = Inr x"
  by (cases "m w") (auto simp add: try_catch_def split: sum.splits)

lemma snd_try_catch: "snd (try_catch m d w) = snd (m w)"
  by (cases "m w") (auto simp add: try_catch_def split: sum.splits)

lemma silent_case_sum:
  "(\<And>e. silent (f e)) \<Longrightarrow> (\<And>x. silent (g x)) \<Longrightarrow> silent (case v of Inl e \<Rightarrow> f e | Inr x \<Rightarrow> g x)"
  by (cases v) simp_all

lemma Facebook_insights_world:
  "snd (Facebook_insights h access_token postId w) =
     \<lparr>pending = drop 1 (pending w),
      sent = sent w @ [Facebook_insights_request access_token postId]\<rparr>"
  by (simp add: Facebook_insights_def Facebook_insights_request_def GET_def META_API_BASE_def snd_try_catch
      snd_fetch_then_silent snd_fetch_json silent_rules)

lemma Facebook_insights_returns: "\<exists>x. fst (Facebook_insights h access_token postId w) = Inr x"
  unfolding Facebook_insights_def by (rule try_catch_result)

lemma Facebook_insights_result:
  "Facebook_insights h access_token postId w =
     (Inr (fetched_insights h access_token postId w),
      \<lparr>pending = drop 1 (pending w),
       sent = sent w @ [Facebook_insights_request access_token postId]\<rparr>)"
  if "str_includes postId ''_''"
proof -
  obtain x where "fst (Facebook_insights h access_token postId w) = Inr x"
    using Facebook_insights_returns by blast
  then show ?thesis
    using that Facebook_insights_world [of h access_token postId w]
    by (simp add: fetched_insights_def prod_eq_iff)
qed

lemma Facebook_social_result: "\<exists>x. fst (Facebook_social h access_token postId b w) = Inr x"
  unfolding Facebook_social_def by (rule try_catch_result)

text \<open>The world the social phase starts from, and what it leaves.\<close>

lemma fetched_counts_social:
  assumes "Facebook_social h access_token postId (str_includes postId ''_'')
             (if str_includes postId ''_''
              then \<lparr>pending = drop 1 (pending w),
                    sent = sent w @ [Facebook_insights_request access_token postId]\<rparr>
              else w) = (Inr t, w2)"
  shows "fetched_counts h access_token postId w = t"
  using assms by (simp add: fetched_counts_def Facebook_insights_world split: if_splits)

lemma fetched_counts_run:
  "\<exists>w2. Facebook_social h access_token postId (str_includes postId ''_'')
           (if str_includes postId ''_''
            then \<lparr>pending = drop 1 (pending w),
                  sent = sent w @ [Facebook_insights_request access_token postId]\<rparr>
            else w) = (Inr (fetched_counts h access_token postId w), w2)"
proof -
  let ?w1 = "if str_includes postId ''_''
             then \<lparr>pending = drop 1 (pending w),
                   sent = sent w @ [Facebook_insights_request access_token postId]\<rparr>
             else w"
  obtain x where "fst (Facebook_social h access_token postId (str_includes postId ''_'') ?w1) = Inr x"
    using Facebook_social_result by blast
  then obtain w2
    where soc: "Facebook_social h access_token postId (str_includes postId ''_'') ?w1 = (Inr x, w2)"
    by (metis prod.collapse)
  from fetched_counts_social [OF soc] soc show ?thesis by blast
qed

text \<open>The outcome of \<^verbatim>\<open>getPostMetrics\<close>, from what its two phases leave.\<close>

lemma Facebook_getPostMetrics_phases:
  assumes "w1 = (if str_includes postId ''_''
                 then \<lparr>pending = drop 1 (pending w),
                       sent = sent w @ [Facebook_insights_request access_token postId]\<rparr>
                 else w)"
    and "fetched_insights h access_token postId w = (native, reach, engagedUsers)"
    and "Facebook_social h access_token postId (str_includes postId ''_'') w1 = (Inr (lk, cm, sh), w2)"
  shows "Facebook_getPostMetrics h access_token postId w =
     ((case totalInteractions h lk cm sh of
         Inl e \<Rightarrow> Inl e
       | Inr tot \<Rightarrow>
           (case (if is_zero native then js_gt_zero h tot else Inr False) of
              Inl e \<Rightarrow> Inl e
            | Inr fallback \<Rightarrow>
                Inr \<lparr>views = (if fallback then tot else JNum native),
                     likes = lk, comments = cm, shares = sh, saves = JNum (Num 0),
                     watchTimeSeconds = JNum (Num 0), avgWatchPercent = JNum (Num 0),
                     reachUnique = JNum reach,
                     impressions = (if fallback then tot else JNum native),
                     engagementRate = JNum (rate engagedUsers reach)\<rparr>)),
      w2)"
proof (cases "str_includes postId ''_''")
  case True
  then show ?thesis
    using assms Facebook_insights_result [OF True, of h access_token w]
    by (simp add: Facebook_getPostMetrics_def Let_def and_then_def ret_def lift_def
        split: sum.splits)
next
  case False
  then have zero: "native = Num 0" "reach = Num 0" "engagedUsers = Num 0"
    using assms(2) by (auto simp add: fetched_insights_def)
  show ?thesis
    using False assms(1,3)
    by (simp add: Facebook_getPostMetrics_def Let_def and_then_def ret_def lift_def zero
        split: sum.splits)
qed

lemma Facebook_getPostMetrics_outcome:
  assumes "fetched_insights h access_token postId w = (native, reach, engagedUsers)"
    and "fetched_counts h access_token postId w = (lk, cm, sh)"
  shows "fst (Facebook_getPostMetrics h access_token postId w) =
     (case totalInteractions h lk cm sh of
        Inl e \<Rightarrow> Inl e
      | Inr tot \<Rightarrow>
          (case (if is_zero native then js_gt_zero h tot else Inr False) of
             Inl e \<Rightarrow> Inl e
           | Inr fallback \<Rightarrow>
               Inr \<lparr>views = (if fallback then tot else JNum native),
                    likes = lk, comments = cm, shares = sh, saves = JNum (Num 0),
                    watchTimeSeconds = JNum (Num 0), avgWatchPercent = JNum (Num 0),
                    reachUnique = JNum reach,
                    impressions = (if fallback then tot else JNum native),
                    engagementRate = JNum (rate engagedUsers reach)\<rparr>))"
proof -
  obtain w2 where "Facebook_social h access_token postId (str_includes postId ''_'')
           (if str_includes postId ''_''
            then \<lparr>pending = drop 1 (pending w),
                  sent = sent w @ [Facebook_insights_request access_token postId]\<rparr>
            else w) = (Inr (lk, cm, sh), w2)"
    using fetched_counts_run [of h access_token postId w] assms(2) by auto
  from Facebook_getPostMetrics_phases [OF refl assms(1) this] show ?thesis by simp
qed

text \<open>The call fails on a count that has no primitive value, and on nothing else.\<close>

lemma Facebook_getPostMetrics_fails:
  assumes "fetched_counts h access_token postId w = (lk, cm, sh)"
  shows "hostile lk \<or> hostile cm \<or> hostile sh
           \<Longrightarrow> fst (Facebook_getPostMetrics h access_token postId w) = Inl TypeError"
    and "\<not> hostile lk \<Longrightarrow> \<not> hostile cm \<Longrightarrow> \<not> hostile sh
           \<Longrightarrow> \<exists>r. fst (Facebook_getPostMetrics h access_token postId w) = Inr r"
    and "fst (Facebook_getPostMetrics h access_token postId w) = Inl e \<Longrightarrow> e = TypeError"
proof -
  obtain native reach engaged
    where f: "fetched_insights h access_token postId w = (native, reach, engaged)"
    by (metis prod.collapse)
  note out = Facebook_getPostMetrics_outcome [OF f assms]
  have ok: "\<exists>r. fst (Facebook_getPostMetrics h access_token postId w) = Inr r"
    if "totalInteractions h lk cm sh = Inr tot" for tot
  proof -
    have "\<not> hostile tot" using that by (rule totalInteractions_primitive)
    then obtain g where "js_gt_zero h tot = Inr g" using js_gt_zero_total by blast
    then show ?thesis unfolding out that by simp
  qed
  {
    assume "hostile lk \<or> hostile cm \<or> hostile sh"
    then have "totalInteractions h lk cm sh = Inl TypeError"
      by (simp add: totalInteractions_fails)
    then show "fst (Facebook_getPostMetrics h access_token postId w) = Inl TypeError"
      unfolding out by simp
  }
  {
    assume "\<not> hostile lk" "\<not> hostile cm" "\<not> hostile sh"
    then obtain tot where "totalInteractions h lk cm sh = Inr tot"
      using totalInteractions_fails [of h lk cm sh] by (cases "totalInteractions h lk cm sh") auto
    then show "\<exists>r. fst (Facebook_getPostMetrics h access_token postId w) = Inr r" by (rule ok)
  }
  {
    assume e: "fst (Facebook_getPostMetrics h access_token postId w) = Inl e"
    show "e = TypeError"
    proof (cases "totalInteractions h lk cm sh")
      case (Inl x)
      then have "x = TypeError" by (simp add: totalInteractions_fails)
      then show ?thesis using e Inl unfolding out by simp
    next
      case (Inr tot)
      then show ?thesis using ok [OF Inr] e by simp
    qed
  }
qed

lemma Facebook_getPostMetrics_record:
  assumes "fst (Facebook_getPostMetrics h access_token postId w) = Inr r"
    and "fetched_insights h access_token postId w = (native, reach, engaged)"
  shows "\<exists>tot g. totalInteractions h (likes r) (comments r) (shares r) = Inr tot
           \<and> js_gt_zero h tot = Inr g
           \<and> impressions r = (if is_zero native \<and> g then tot else JNum native)"
    and "views r = impressions r"
    and "reachUnique r = JNum reach"
    and "engagementRate r = JNum (rate engaged reach)"
    and "saves r = JNum (Num 0)"
    and "fetched_counts h access_token postId w = (likes r, comments r, shares r)"
proof -
  obtain lk cm sh where c: "fetched_counts h access_token postId w = (lk, cm, sh)"
    by (metis prod.collapse)
  note out = Facebook_getPostMetrics_outcome [OF assms(2) c]
  obtain tot where t: "totalInteractions h lk cm sh = Inr tot"
    using assms(1) unfolding out by (cases "totalInteractions h lk cm sh") simp_all
  have "\<not> hostile tot" using t by (rule totalInteractions_primitive)
  then obtain g where g: "js_gt_zero h tot = Inr g" using js_gt_zero_total by blast
  have r: "r = \<lparr>views = (if is_zero native \<and> g then tot else JNum native),
                likes = lk, comments = cm, shares = sh, saves = JNum (Num 0),
                watchTimeSeconds = JNum (Num 0), avgWatchPercent = JNum (Num 0),
                reachUnique = JNum reach,
                impressions = (if is_zero native \<and> g then tot else JNum native),
                engagementRate = JNum (rate engaged reach)\<rparr>"
    using assms(1) unfolding out t by (cases "is_zero native") (simp_all add: g)
  show "\<exists>tot g. totalInteractions h (likes r) (comments r) (shares r) = Inr tot
           \<and> js_gt_zero h tot = Inr g
           \<and> impressions r = (if is_zero native \<and> g then tot else JNum native)"
    using t g by (intro exI [of _ tot] exI [of _ g]) (simp add: r)
  show "views r = impressions r" "reachUnique r = JNum reach"
    "engagementRate r = JNum (rate engaged reach)" "saves r = JNum (Num 0)"
    by (simp_all add: r)
  show "fetched_counts h access_token postId w = (likes r, comments r, shares r)"
    by (simp add: r c)
qed

lemma Facebook_social_retry:
  assumes w: "pending w = Body d # rest"
    and e: "read_prop (parsed d) ''error'' = Some e"
    and msg: "read_prop e ''message'' = Some (JStr msg)"
    and hit: "str_includes msg ''nonexisting field''"
  shows "Facebook_social h access_token postId b w =
           (Inr (social_counts rest),
            \<lparr>pending = drop 1 rest,
             sent = sent w @ [Facebook_social_request access_token postId
                                (if b then fieldsWithShares else fieldsNoShares),
                              Facebook_social_request access_token postId fieldsNoShares]\<rparr>)"
proof -
  have d: "parsed d \<noteq> JNull" using e by (rule read_prop_Some_nonnull)
  have en: "e \<noteq> JNull" using msg by (rule read_prop_Some_nonnull)
  have te: "truthy (Some e)" using msg by (cases e) (simp_all add: truthy_def)
  let ?w1 = "\<lparr>pending = rest,
              sent = sent w @ [Facebook_social_request access_token postId
                                (if b then fieldsWithShares else fieldsNoShares)]\<rparr>"
  show ?thesis
  proof (cases rest)
    case Nil
    then show ?thesis
      using w e msg hit te
      by (simp add: Facebook_social_def Facebook_social_request_def GET_def META_API_BASE_def try_catch_def run_simps
          get_nonnull [OF d] opt_get_def truthy_def social_counts_def)
  next
    case (Cons r rest')
    show ?thesis
    proof (cases r)
      case Rejected
      then show ?thesis
        using w e msg hit te Cons
        by (simp add: Facebook_social_def Facebook_social_request_def GET_def META_API_BASE_def try_catch_def run_simps
            get_nonnull [OF d] opt_get_def truthy_def social_counts_def)
    next
      case (Body d2)
      show ?thesis
      proof (cases "parsed d2 = JNull")
        case True
        then show ?thesis
          using w e msg hit te Cons Body
          by (simp add: Facebook_social_def Facebook_social_request_def GET_def META_API_BASE_def try_catch_def run_simps
              get_nonnull [OF d] opt_get_def truthy_def social_counts_def throw_def)
      next
        case False
        then show ?thesis
          using w e msg hit te Cons Body
          by (simp add: Facebook_social_def Facebook_social_request_def GET_def META_API_BASE_def try_catch_def run_simps
              get_nonnull [OF d] get_nonnull [OF False] opt_get_def truthy_def social_counts_def
              ret_def)
      qed
    qed
  qed
qed


lemma fetched_insights_failed:
  assumes "reply_failed (pending w)"
  shows "fetched_insights h access_token postId w = (Num 0, Num 0, Num 0)"
proof (cases "pending w")
  case Nil
  then show ?thesis
    by (simp add: fetched_insights_def Facebook_insights_def try_catch_def run_simps)
next
  case (Cons r rest)
  show ?thesis
  proof (cases r)
    case Rejected
    then show ?thesis
      using Cons by (simp add: fetched_insights_def Facebook_insights_def try_catch_def run_simps)
  next
    case (Body d)
    show ?thesis
    proof (cases "parsed d = JNull")
      case True
      then show ?thesis
        using Cons Body
        by (simp add: fetched_insights_def Facebook_insights_def try_catch_def run_simps
            throw_def)
    next
      case False
      then have "truthy (read_prop (parsed d) ''error'')"
        using assms Cons Body by (simp add: reply_failed_def)
      then show ?thesis
        using Cons Body False
        by (simp add: fetched_insights_def Facebook_insights_def try_catch_def run_simps
            get_nonnull ret_def)
    qed
  qed
qed

lemma and_then_Pair:
  "and_then (Pair (Inr x)) f = f x" "and_then (Pair (Inl e)) f = Pair (Inl e)"
  by (simp_all add: and_then_def fun_eq_iff)

lemmas io_unit = ret_def throw_def and_then_Pair


lemma fetched_insights_read:
  assumes "str_includes postId ''_''" and "pending w = Body d # rest"
    and "\<not> truthy (read_prop (parsed d) ''error'')"
    and "read_prop (parsed d) ''data'' = Some (JArr items)"
    and "Facebook_insight_items h [] items = Inr m"
  shows "fetched_insights h access_token postId w =
           (metric_or_zero m ''post_impressions'',
            metric_or_zero m ''post_impressions_unique'',
            metric_or_zero m ''post_engaged_users'')"
  using assms read_prop_Some_nonnull [OF assms(4)]
  by (simp add: fetched_insights_def Facebook_insights_def try_catch_def run_simps get_nonnull
      truthy_def io_unit)

lemma Instagram_getPostMetrics_rate:
  assumes "fst (Instagram_getPostMetrics h access_token postId w) = Inr r"
  shows "engagementRate r = JNum (Num 0)"
  using assms
  by (auto simp add: Instagram_getPostMetrics_def and_then_def lift_def ret_def
      split: prod.splits sum.splits)

lemma falsy_no_property: "\<not> truthy v \<Longrightarrow> opt_get v k = None"
proof (cases v)
  case None
  then show ?thesis by (simp add: opt_get_def)
next
  case (Some j)
  assume "\<not> truthy v"
  then show ?thesis using Some by (cases j) (simp_all add: opt_get_def truthy_def)
qed

lemma Facebook_social_read:
  assumes w: "pending w = Body d # rest" and d: "parsed d \<noteq> JNull"
    and ok: "\<not> truthy (read_prop (parsed d) ''error'')"
  shows "Facebook_social h access_token postId b w =
           (Inr (social_counts (pending w)),
            \<lparr>pending = rest,
             sent = sent w @ [Facebook_social_request access_token postId
                                (if b then fieldsWithShares else fieldsNoShares)]\<rparr>)"
  using w d ok falsy_no_property [OF ok, of "''message''"]
  by (simp add: Facebook_social_def Facebook_social_request_def GET_def META_API_BASE_def try_catch_def run_simps
      get_nonnull io_unit social_counts_def truthy_def)

lemmas example_defs = example_host_def replies_def insights_reply_def insight_item_def
  counts_reply_def error_reply_def

lemmas read_defs = get_def opt_get_def opt_first_def default_to_def truthy_def set_metric_def
  metric_or_zero_def to_string_def json_string_def startsWith_def social_counts_def

lemma dadd_nat:
  assumes "x + y < 9007199254740992"
  shows "dadd (Num (of_nat x)) (Num (of_nat y)) = Num (of_nat (x + y))"
  using dadd_int [of "int x" "int y"] assms by simp

lemma example_rate: "rate (Num 50) (Num 200) = Num 25" "rate (Num 0) (Num 0) = Num 0"
  by (simp_all add: rate_def number_defs)

text \<open>
  One engaged user out of three reached: the quotient and then the product are rounded,
  and the rate is the double whose decimal form is \<^verbatim>\<open>33.33333333333333\<close>, not \<open>100 / 3\<close>.
\<close>

lemma rate_rounded: "rate (Num 1) (Num 3) = Num (2345624805922133 / 70368744177664)"
proof -
  have "\<lfloor>(18014398509481984::rat) / 3\<rfloor> = 6004799503160661"
    by (rule floor_unique) simp_all
  then have third: "round_double (1 / 3) = Num (6004799503160661 / 18014398509481984)"
    by (simp add: round_double_def round_magnitude_def exponent_def pow2_def round_even_def
        Let_def)
  have "\<lceil>(18014398509481984::rat) / 6004799503160661\<rceil> = 4"
    by (rule ceiling_unique) simp_all
  then have "round_double (6004799503160661 / 18014398509481984)
               = Num (6004799503160661 / 18014398509481984)"
    by (simp add: round_double_def round_magnitude_def exponent_def pow2_def round_even_def
        Let_def)
  then have double: "nearest (Num (6004799503160661 / 18014398509481984))
                       = Num (6004799503160661 / 18014398509481984)"
    by (simp add: nearest_def)
  have floors: "\<lfloor>(150119987579016525::rat) / 4503599627370496\<rfloor> = 33"
    "\<lfloor>(150119987579016525::rat) / 32\<rfloor> = 4691249611844266"
    by (rule floor_unique, simp, simp)+
  have "round_double (150119987579016525 / 4503599627370496)
          = Num (2345624805922133 / 70368744177664)"
    by (simp add: round_double_def round_magnitude_def exponent_def pow2_def round_even_def
        Let_def floors)
  then show ?thesis
    by (simp add: rate_def number_defs third double)
qed

lemma example_fetched:
  "fetched_insights example_host ''tok'' ''100_200''
     (replies [Body (insights_reply 500 200 50),
               Body (counts_reply (JNum (Num 3)) (JNum (Num 1)))])
     = (Num 500, Num 200, Num 50)"
  by (rule trans [OF fetched_insights_read
        [where d = "insights_reply 500 200 50"
           and rest = "[Body (counts_reply (JNum (Num 3)) (JNum (Num 1)))]"
           and items = "[insight_item ''post_impressions'' (JNum (Num 500)),
                         insight_item ''post_impressions_unique'' (JNum (Num 200)),
                         insight_item ''post_engaged_users'' (JNum (Num 50))]"
           and m = "[(''post_engaged_users'', Num 50), (''post_impressions_unique'', Num 200),
                     (''post_impressions'', Num 500)]"]])
    (simp_all add: example_defs read_defs nearest_Ints)

lemma example_social:
  "Facebook_social example_host ''tok'' ''100_200'' True
     \<lparr>pending = [Body (counts_reply (JNum (Num 3)) (JNum (Num 1)))],
      sent = [Facebook_insights_request ''tok'' ''100_200'']\<rparr>
   = (Inr (JNum (Num 3), JNum (Num 1), JNum (Num 0)),
      \<lparr>pending = [],
       sent = [Facebook_insights_request ''tok'' ''100_200'',
               Facebook_social_request ''tok'' ''100_200'' fieldsWithShares]\<rparr>)"
  by (rule trans [OF Facebook_social_read
        [where d = "counts_reply (JNum (Num 3)) (JNum (Num 1))" and rest = "[]"]])
    (simp_all add: example_defs read_defs nearest_Ints)

lemma example_total:
  "totalInteractions example_host (JNum (Num 3)) (JNum (Num 1)) (JNum (Num 0)) = Inr (JNum (Num 4))"
  "js_gt_zero example_host (JNum (Num 4)) = Inr True"
  by (simp_all add: totalInteractions_numbers number_defs js_gt_zero_def to_number_JNum)

lemma example_metrics:
  "fst (Facebook_getPostMetrics example_host ''tok'' ''100_200''
          (replies [Body (insights_reply 500 200 50),
                    Body (counts_reply (JNum (Num 3)) (JNum (Num 1)))]))
     = Inr \<lparr>views = JNum (Num 500), likes = JNum (Num 3), comments = JNum (Num 1),
            shares = JNum (Num 0), saves = JNum (Num 0), watchTimeSeconds = JNum (Num 0),
            avgWatchPercent = JNum (Num 0), reachUnique = JNum (Num 200),
            impressions = JNum (Num 500), engagementRate = JNum (Num 25)\<rparr>"
proof -
  let ?w = "replies [Body (insights_reply 500 200 50),
                     Body (counts_reply (JNum (Num 3)) (JNum (Num 1)))]"
  have "Facebook_social example_host ''tok'' ''100_200'' (str_includes ''100_200'' ''_'')
          (if str_includes ''100_200'' ''_''
           then \<lparr>pending = drop 1 (pending ?w),
                 sent = sent ?w @ [Facebook_insights_request ''tok'' ''100_200'']\<rparr>
           else ?w)
        = (Inr (JNum (Num 3), JNum (Num 1), JNum (Num 0)),
           \<lparr>pending = [],
            sent = [Facebook_insights_request ''tok'' ''100_200'',
                    Facebook_social_request ''tok'' ''100_200'' fieldsWithShares]\<rparr>)"
    using example_social by (simp add: replies_def startsWith_def)
  from Facebook_getPostMetrics_phases [OF refl example_fetched this]
  show ?thesis by (simp add: example_total example_rate number_defs)
qed

lemma example_fetched_zero:
  "fetched_insights example_host ''tok'' ''100_200''
     (replies [Body (insights_reply 0 0 0),
               Body (counts_reply (JNum (Num 3)) (JNum (Num 1)))])
     = (Num 0, Num 0, Num 0)"
  by (rule trans [OF fetched_insights_read
        [where d = "insights_reply 0 0 0"
           and rest = "[Body (counts_reply (JNum (Num 3)) (JNum (Num 1)))]"
           and items = "[insight_item ''post_impressions'' (JNum (Num 0)),
                         insight_item ''post_impressions_unique'' (JNum (Num 0)),
                         insight_item ''post_engaged_users'' (JNum (Num 0))]"
           and m = "[(''post_engaged_users'', Num 0), (''post_impressions_unique'', Num 0),
                     (''post_impressions'', Num 0)]"]])
    (simp_all add: example_defs read_defs nearest_Ints)

lemma example_metrics_zero:
  "fst (Facebook_getPostMetrics example_host ''tok'' ''100_200''
          (replies [Body (insights_reply 0 0 0),
                    Body (counts_reply (JNum (Num 3)) (JNum (Num 1)))]))
     = Inr \<lparr>views = JNum (Num 4), likes = JNum (Num 3), comments = JNum (Num 1),
            shares = JNum (Num 0), saves = JNum (Num 0), watchTimeSeconds = JNum (Num 0),
            avgWatchPercent = JNum (Num 0), reachUnique = JNum (Num 0),
            impressions = JNum (Num 4), engagementRate = JNum (Num 0)\<rparr>"
proof -
  let ?w = "replies [Body (insights_reply 0 0 0),
                     Body (counts_reply (JNum (Num 3)) (JNum (Num 1)))]"
  have "Facebook_social example_host ''tok'' ''100_200'' (str_includes ''100_200'' ''_'')
          (if str_includes ''100_200'' ''_''
           then \<lparr>pending = drop 1 (pending ?w),
                 sent = sent ?w @ [Facebook_insights_request ''tok'' ''100_200'']\<rparr>
           else ?w)
        = (Inr (JNum (Num 3), JNum (Num 1), JNum (Num 0)),
           \<lparr>pending = [],
            sent = [Facebook_insights_request ''tok'' ''100_200'',
                    Facebook_social_request ''tok'' ''100_200'' fieldsWithShares]\<rparr>)"
    using example_social by (simp add: replies_def startsWith_def)
  from Facebook_getPostMetrics_phases [OF refl example_fetched_zero this]
  show ?thesis by (simp add: example_total example_rate number_defs)
qed

text \<open>
  C7 (as amended). In the Facebook \<^verbatim>\<open>getPostMetrics\<close>, with \<open>native\<close> the impressions value the
  insights phase leaves (the fetched \<^verbatim>\<open>post_impressions\<close> of a page post; 0 for any other
  post and when the insights query fails), a record that is returned has \<^verbatim>\<open>views\<close> and
  \<^verbatim>\<open>impressions\<close> equal, a non-zero native value in them unchanged, and a native value of
  0, whether absent or fetched as 0, replaced by \<^verbatim>\<open>likes + comments + shares\<close> when that
  sum is positive (it stays as it is otherwise). For three numbers the sum is their sum
  as numbers, which for whole counts below \<open>2^53\<close> is their arithmetic sum.
\<close>

theorem Facebook_impressions_fallback:
  assumes "fst (Facebook_getPostMetrics h access_token postId w) = Inr r"
    and "fetched_insights h access_token postId w = (native, reach, engaged)"
  shows "\<exists>tot above.
      totalInteractions h (likes r) (comments r) (shares r) = Inr tot
    \<and> js_gt_zero h tot = Inr above
    \<and> views r = impressions r
    \<and> (\<not> is_zero native \<longrightarrow> impressions r = JNum native)
    \<and> (is_zero native \<and> above \<longrightarrow> impressions r = tot)
    \<and> (is_zero native \<and> \<not> above \<longrightarrow> impressions r = JNum native)
    \<and> (likes r = JNum a \<and> comments r = JNum b \<and> shares r = JNum c
         \<longrightarrow> tot = JNum (dadd (dadd a b) c))
    \<and> (likes r = JNum (Num (of_nat x)) \<and> comments r = JNum (Num (of_nat y))
         \<and> shares r = JNum (Num (of_nat z)) \<and> x + y + z < 9007199254740992
         \<longrightarrow> tot = JNum (Num (of_nat (x + y + z))))
    \<and> (str_includes postId ''_'' \<and> pending w = Body d # rest
         \<and> \<not> truthy (read_prop (parsed d) ''error'') \<and> read_prop (parsed d) ''data'' = Some (JArr items)
         \<and> Facebook_insight_items h [] items = Inr m
         \<longrightarrow> native = metric_or_zero m ''post_impressions'')
    \<and> (\<not> str_includes postId ''_'' \<or> reply_failed (pending w) \<longrightarrow> native = Num 0)"
proof -
  obtain tot above
    where t: "totalInteractions h (likes r) (comments r) (shares r) = Inr tot"
      and g: "js_gt_zero h tot = Inr above"
      and i: "impressions r = (if is_zero native \<and> above then tot else JNum native)"
    using Facebook_getPostMetrics_record(1) [OF assms] by blast
  have v: "views r = impressions r" by (rule Facebook_getPostMetrics_record(2) [OF assms])
  have numbers: "tot = JNum (dadd (dadd a b) c)"
    if "likes r = JNum a \<and> comments r = JNum b \<and> shares r = JNum c"
    using t that by (simp add: totalInteractions_numbers)
  have counts: "tot = JNum (Num (of_nat (x + y + z)))"
    if "likes r = JNum (Num (of_nat x)) \<and> comments r = JNum (Num (of_nat y))
         \<and> shares r = JNum (Num (of_nat z)) \<and> x + y + z < 9007199254740992"
  proof -
    have "dadd (Num (of_nat x)) (Num (of_nat y)) = Num (of_nat (x + y))"
      using that by (intro dadd_nat) simp
    moreover have "dadd (Num (of_nat (x + y))) (Num (of_nat z)) = Num (of_nat (x + y + z))"
      using that by (intro dadd_nat) simp
    ultimately show ?thesis using t that by (simp add: totalInteractions_numbers)
  qed
  have fetched: "native = metric_or_zero m ''post_impressions''"
    if "str_includes postId ''_'' \<and> pending w = Body d # rest
         \<and> \<not> truthy (read_prop (parsed d) ''error'') \<and> read_prop (parsed d) ''data'' = Some (JArr items)
         \<and> Facebook_insight_items h [] items = Inr m"
  proof -
    have "fetched_insights h access_token postId w =
           (metric_or_zero m ''post_impressions'',
            metric_or_zero m ''post_impressions_unique'',
            metric_or_zero m ''post_engaged_users'')"
      using that fetched_insights_read by blast
    then show ?thesis using assms(2) by simp
  qed
  have absent: "native = Num 0" if "\<not> str_includes postId ''_'' \<or> reply_failed (pending w)"
  proof -
    have "fetched_insights h access_token postId w = (Num 0, Num 0, Num 0)"
      using that fetched_insights_failed [of w h access_token postId]
      by (auto simp add: fetched_insights_def)
    then show ?thesis using assms(2) by simp
  qed
  show ?thesis
  proof (intro exI [of _ tot] exI [of _ above] conjI impI)
    show "totalInteractions h (likes r) (comments r) (shares r) = Inr tot" by (rule t)
    show "js_gt_zero h tot = Inr above" by (rule g)
    show "views r = impressions r" by (rule v)
    show "impressions r = JNum native" if "\<not> is_zero native" using i that by simp
    show "impressions r = tot" if "is_zero native \<and> above" using i that by simp
    show "impressions r = JNum native" if "is_zero native \<and> \<not> above" using i that by simp
    show "tot = JNum (dadd (dadd a b) c)"
      if "likes r = JNum a \<and> comments r = JNum b \<and> shares r = JNum c"
      using that by (rule numbers)
    show "tot = JNum (Num (of_nat (x + y + z)))"
      if "likes r = JNum (Num (of_nat x)) \<and> comments r = JNum (Num (of_nat y))
         \<and> shares r = JNum (Num (of_nat z)) \<and> x + y + z < 9007199254740992"
      using that by (rule counts)
    show "native = metric_or_zero m ''post_impressions''"
      if "str_includes postId ''_'' \<and> pending w = Body d # rest
         \<and> \<not> truthy (read_prop (parsed d) ''error'') \<and> read_prop (parsed d) ''data'' = Some (JArr items)
         \<and> Facebook_insight_items h [] items = Inr m"
      using that by (rule fetched)
    show "native = Num 0" if "\<not> str_includes postId ''_'' \<or> reply_failed (pending w)"
      using that by (rule absent)
  qed
qed

theorem Facebook_impressions_fallback_witness:
  "fst (Facebook_getPostMetrics example_host ''tok'' ''100_200''
          (replies [Body (insights_reply 500 200 50),
                    Body (counts_reply (JNum (Num 3)) (JNum (Num 1)))]))
     = Inr \<lparr>views = JNum (Num 500), likes = JNum (Num 3), comments = JNum (Num 1),
            shares = JNum (Num 0), saves = JNum (Num 0), watchTimeSeconds = JNum (Num 0),
            avgWatchPercent = JNum (Num 0), reachUnique = JNum (Num 200),
            impressions = JNum (Num 500), engagementRate = JNum (Num 25)\<rparr>
   \<and> fetched_insights example_host ''tok'' ''100_200''
          (replies [Body (insights_reply 500 200 50),
                    Body (counts_reply (JNum (Num 3)) (JNum (Num 1)))])
       = (Num 500, Num 200, Num 50)
   \<and> totalInteractions example_host (JNum (Num 3)) (JNum (Num 1)) (JNum (Num 0))
       = Inr (JNum (Num 4))
   \<and> dadd (dadd (Num 3) (Num 1)) (Num 0) = Num 4"
proof -
  let ?r = "\<lparr>views = JNum (Num 500), likes = JNum (Num 3), comments = JNum (Num 1),
            shares = JNum (Num 0), saves = JNum (Num 0), watchTimeSeconds = JNum (Num 0),
            avgWatchPercent = JNum (Num 0), reachUnique = JNum (Num 200),
            impressions = JNum (Num 500), engagementRate = JNum (Num 25)\<rparr>"
  obtain tot
    where t: "totalInteractions example_host (likes ?r) (comments ?r) (shares ?r) = Inr tot"
      and s: "likes ?r = JNum (Num 3) \<and> comments ?r = JNum (Num 1) \<and> shares ?r = JNum (Num 0)
                \<longrightarrow> tot = JNum (dadd (dadd (Num 3) (Num 1)) (Num 0))"
    using Facebook_impressions_fallback
      [OF example_metrics example_fetched, where a = "Num 3" and b = "Num 1" and c = "Num 0"
         and x = 0 and y = 0 and z = 0 and d = JNull and rest = "[]" and items = "[]"
         and m = "[]"]
    by blast
  from t have "tot = JNum (Num 4)" by (simp add: example_total)
  moreover from s have "tot = JNum (dadd (dadd (Num 3) (Num 1)) (Num 0))" by simp
  ultimately have "dadd (dadd (Num 3) (Num 1)) (Num 0) = Num 4" by simp
  then show ?thesis
    using example_metrics example_fetched example_total(1) by simp
qed

text \<open>
  An insights reply whose \<^verbatim>\<open>post_impressions\<close> is 0, on a post with four interactions: the
  native value is there, and is not what comes back.
\<close>

theorem Facebook_impressions_fallback_counterexample:
  "fst (Facebook_getPostMetrics example_host ''tok'' ''100_200''
          (replies [Body (insights_reply 0 0 0),
                    Body (counts_reply (JNum (Num 3)) (JNum (Num 1)))]))
     = Inr \<lparr>views = JNum (Num 4), likes = JNum (Num 3), comments = JNum (Num 1),
            shares = JNum (Num 0), saves = JNum (Num 0), watchTimeSeconds = JNum (Num 0),
            avgWatchPercent = JNum (Num 0), reachUnique = JNum (Num 0),
            impressions = JNum (Num 4), engagementRate = JNum (Num 0)\<rparr>
   \<and> fetched_insights example_host ''tok'' ''100_200''
          (replies [Body (insights_reply 0 0 0),
                    Body (counts_reply (JNum (Num 3)) (JNum (Num 1)))])
       = (Num 0, Num 0, Num 0)"
  using example_metrics_zero example_fetched_zero by simp

section \<open>The engagement rate\<close>

lemma example_fetched_third:
  "fetched_insights example_host ''tok'' ''100_200''
     (replies [Body (insights_reply 10 3 1),
               Body (counts_reply (JNum (Num 3)) (JNum (Num 1)))])
     = (Num 10, Num 3, Num 1)"
  by (rule trans [OF fetched_insights_read
        [where d = "insights_reply 10 3 1"
           and rest = "[Body (counts_reply (JNum (Num 3)) (JNum (Num 1)))]"
           and items = "[insight_item ''post_impressions'' (JNum (Num 10)),
                         insight_item ''post_impressions_unique'' (JNum (Num 3)),
                         insight_item ''post_engaged_users'' (JNum (Num 1))]"
           and m = "[(''post_engaged_users'', Num 1), (''post_impressions_unique'', Num 3),
                     (''post_impressions'', Num 10)]"]])
    (simp_all add: example_defs read_defs nearest_Ints)

lemma example_metrics_third:
  "fst (Facebook_getPostMetrics example_host ''tok'' ''100_200''
          (replies [Body (insights_reply 10 3 1),
                    Body (counts_reply (JNum (Num 3)) (JNum (Num 1)))]))
     = Inr \<lparr>views = JNum (Num 10), likes = JNum (Num 3), comments = JNum (Num 1),
            shares = JNum (Num 0), saves = JNum (Num 0), watchTimeSeconds = JNum (Num 0),
            avgWatchPercent = JNum (Num 0), reachUnique = JNum (Num 3),
            impressions = JNum (Num 10),
            engagementRate = JNum (Num (2345624805922133 / 70368744177664))\<rparr>"
proof -
  let ?w = "replies [Body (insights_reply 10 3 1),
                     Body (counts_reply (JNum (Num 3)) (JNum (Num 1)))]"
  have "Facebook_social example_host ''tok'' ''100_200'' (str_includes ''100_200'' ''_'')
          (if str_includes ''100_200'' ''_''
           then \<lparr>pending = drop 1 (pending ?w),
                 sent = sent ?w @ [Facebook_insights_request ''tok'' ''100_200'']\<rparr>
           else ?w)
        = (Inr (JNum (Num 3), JNum (Num 1), JNum (Num 0)),
           \<lparr>pending = [],
            sent = [Facebook_insights_request ''tok'' ''100_200'',
                    Facebook_social_request ''tok'' ''100_200'' fieldsWithShares]\<rparr>)"
    using example_social by (simp add: replies_def startsWith_def)
  from Facebook_getPostMetrics_phases [OF refl example_fetched_third this]
  show ?thesis by (simp add: example_total rate_rounded number_defs)
qed

lemma example_instagram_metrics:
  "fst (Instagram_getPostMetrics example_host ''tok'' ''1789''
          (replies [Body instagram_insights_reply]))
     = Inr \<lparr>views = JNum (Num 0), likes = JNum (Num 50), comments = JNum (Num 0),
            shares = JNum (Num 0), saves = JNum (Num 0), watchTimeSeconds = JNum (Num 0),
            avgWatchPercent = JNum (Num 0), reachUnique = JNum (Num 200),
            impressions = JNum (Num 0), engagementRate = JNum (Num 0)\<rparr>"
  by (simp add: Instagram_getPostMetrics_def instagram_insights_reply_def insight_item_def
      replies_def run_simps io_unit read_defs nearest_Ints)

lemma insights_failed:
  assumes "str_includes postId ''_'' \<longrightarrow> reply_failed (pending w)"
  shows "fetched_insights h access_token postId w = (Num 0, Num 0, Num 0)"
  using assms fetched_insights_failed [of w h access_token postId]
  by (auto simp add: fetched_insights_def)

text \<open>
  C9 (as amended). On Facebook, with \<open>reach\<close> and \<open>engaged\<close> the values the insights phase
  leaves (the fetched \<^verbatim>\<open>post_impressions_unique\<close> and \<^verbatim>\<open>post_engaged_users\<close> of a page post,
  else 0), a record that is returned has \<^verbatim>\<open>reachUnique\<close> equal to \<open>reach\<close> and
  \<^verbatim>\<open>engagementRate\<close> equal to the number \<^verbatim>\<open>(engaged / reach) * 100\<close>, the quotient and the
  product each rounded to a double, when \<open>reach > 0\<close>, and to 0 otherwise, whatever
  \<open>engaged\<close> is: it is computed from what was fetched, and from zeros when nothing was.
  On Instagram \<^verbatim>\<open>engagementRate\<close> is the constant 0.
\<close>

theorem engagementRate_computed:
  "(fst (Facebook_getPostMetrics h access_token postId w) = Inr r
      \<and> fetched_insights h access_token postId w = (native, reach, engaged)
     \<longrightarrow> reachUnique r = JNum reach
         \<and> engagementRate r =
             JNum (if positive reach then dmul (ddiv engaged reach) (Num 100) else Num 0))
   \<and> (str_includes postId ''_'' \<and> pending w = Body d # rest
      \<and> \<not> truthy (read_prop (parsed d) ''error'') \<and> read_prop (parsed d) ''data'' = Some (JArr items)
      \<and> Facebook_insight_items h [] items = Inr m
     \<longrightarrow> fetched_insights h access_token postId w =
           (metric_or_zero m ''post_impressions'',
            metric_or_zero m ''post_impressions_unique'',
            metric_or_zero m ''post_engaged_users''))
   \<and> (\<not> str_includes postId ''_'' \<or> reply_failed (pending w)
     \<longrightarrow> fetched_insights h access_token postId w = (Num 0, Num 0, Num 0))
   \<and> (fst (Instagram_getPostMetrics h access_token postId w) = Inr q
     \<longrightarrow> engagementRate q = JNum (Num 0))"
proof (intro conjI impI)
  {
    assume a: "fst (Facebook_getPostMetrics h access_token postId w) = Inr r
      \<and> fetched_insights h access_token postId w = (native, reach, engaged)"
    then show "reachUnique r = JNum reach"
      using Facebook_getPostMetrics_record(3) by blast
    from a have "engagementRate r = JNum (rate engaged reach)"
      using Facebook_getPostMetrics_record(4) by blast
    then show "engagementRate r =
             JNum (if positive reach then dmul (ddiv engaged reach) (Num 100) else Num 0)"
      by (simp only: rate_def)
  }
  {
    assume "str_includes postId ''_'' \<and> pending w = Body d # rest
      \<and> \<not> truthy (read_prop (parsed d) ''error'') \<and> read_prop (parsed d) ''data'' = Some (JArr items)
      \<and> Facebook_insight_items h [] items = Inr m"
    then show "fetched_insights h access_token postId w =
           (metric_or_zero m ''post_impressions'',
            metric_or_zero m ''post_impressions_unique'',
            metric_or_zero m ''post_engaged_users'')"
      using fetched_insights_read by blast
  }
  {
    assume "\<not> str_includes postId ''_'' \<or> reply_failed (pending w)"
    then show "fetched_insights h access_token postId w = (Num 0, Num 0, Num 0)"
      by (intro insights_failed) blast
  }
  {
    assume "fst (Instagram_getPostMetrics h access_token postId w) = Inr q"
    then show "engagementRate q = JNum (Num 0)" by (rule Instagram_getPostMetrics_rate)
  }
qed

text \<open>A post that reached three accounts and engaged one: the rate is the double nearest
  to a hundred times the double nearest to a third.\<close>

theorem engagementRate_computed_witness:
  "fst (Facebook_getPostMetrics example_host ''tok'' ''100_200''
          (replies [Body (insights_reply 10 3 1),
                    Body (counts_reply (JNum (Num 3)) (JNum (Num 1)))]))
     = Inr \<lparr>views = JNum (Num 10), likes = JNum (Num 3), comments = JNum (Num 1),
            shares = JNum (Num 0), saves = JNum (Num 0), watchTimeSeconds = JNum (Num 0),
            avgWatchPercent = JNum (Num 0), reachUnique = JNum (Num 3),
            impressions = JNum (Num 10),
            engagementRate = JNum (Num (2345624805922133 / 70368744177664))\<rparr>
   \<and> fetched_insights example_host ''tok'' ''100_200''
          (replies [Body (insights_reply 10 3 1),
                    Body (counts_reply (JNum (Num 3)) (JNum (Num 1)))])
       = (Num 10, Num 3, Num 1)
   \<and> positive (Num 3)
   \<and> dmul (ddiv (Num 1) (Num 3)) (Num 100) = Num (2345624805922133 / 70368744177664)"
proof -
  let ?r = "\<lparr>views = JNum (Num 10), likes = JNum (Num 3), comments = JNum (Num 1),
            shares = JNum (Num 0), saves = JNum (Num 0), watchTimeSeconds = JNum (Num 0),
            avgWatchPercent = JNum (Num 0), reachUnique = JNum (Num 3),
            impressions = JNum (Num 10),
            engagementRate = JNum (Num (2345624805922133 / 70368744177664))\<rparr>"
  have "engagementRate ?r =
          JNum (if positive (Num 3) then dmul (ddiv (Num 1) (Num 3)) (Num 100) else Num 0)"
    using engagementRate_computed
      [where h = example_host and access_token = "''tok''" and postId = "''100_200''"
         and w = "replies [Body (insights_reply 10 3 1),
                           Body (counts_reply (JNum (Num 3)) (JNum (Num 1)))]"
         and r = ?r and native = "Num 10" and reach = "Num 3" and engaged = "Num 1"]
      example_metrics_third example_fetched_third
    by blast
  moreover have reached: "positive (Num 3)" by (simp add: number_defs)
  ultimately have "dmul (ddiv (Num 1) (Num 3)) (Num 100)
                     = Num (2345624805922133 / 70368744177664)"
    by simp
  then show ?thesis
    using example_metrics_third example_fetched_third reached by simp
qed

text \<open>
  An Instagram post reached by 200 accounts and liked by 50: the rate returned is 0.
\<close>

theorem engagementRate_computed_counterexample:
  "fst (Instagram_getPostMetrics example_host ''tok'' ''1789''
          (replies [Body instagram_insights_reply]))
     = Inr \<lparr>views = JNum (Num 0), likes = JNum (Num 50), comments = JNum (Num 0),
            shares = JNum (Num 0), saves = JNum (Num 0), watchTimeSeconds = JNum (Num 0),
            avgWatchPercent = JNum (Num 0), reachUnique = JNum (Num 200),
            impressions = JNum (Num 0), engagementRate = JNum (Num 0)\<rparr>"
  by (rule example_instagram_metrics)

section \<open>The retry of the social sub-query\<close>

lemma social_counts_failed:
  "reply_failed rs \<Longrightarrow> social_counts rs = (JNum (Num 0), JNum (Num 0), JNum (Num 0))"
  by (auto simp add: reply_failed_def social_counts_def split: list.splits response.splits)

lemma Facebook_getPostMetrics_retried:
  assumes "pending w = pre @ Body d # rest" and "length pre = insights_replies postId"
    and "read_prop (parsed d) ''error'' = Some e" and "read_prop e ''message'' = Some (JStr msg)"
    and "str_includes msg ''nonexisting field''"
  shows "fetched_counts h access_token postId w = social_counts rest"
    and "sent (snd (Facebook_getPostMetrics h access_token postId w)) =
           sent w
           @ (if str_includes postId ''_''
              then [Facebook_insights_request access_token postId] else [])
           @ [Facebook_social_request access_token postId
                (if str_includes postId ''_'' then fieldsWithShares else fieldsNoShares),
              Facebook_social_request access_token postId fieldsNoShares]"
proof -
  let ?page = "str_includes postId ''_''"
  let ?w1 = "if ?page
             then \<lparr>pending = drop 1 (pending w),
                   sent = sent w @ [Facebook_insights_request access_token postId]\<rparr>
             else w"
  have p1: "pending ?w1 = Body d # rest"
    using assms(1,2) by (cases pre) (auto simp add: insights_replies_def split: if_splits)
  note soc = Facebook_social_retry [OF p1 assms(3,4,5), of h access_token postId ?page]
  obtain native reach engaged
    where f: "fetched_insights h access_token postId w = (native, reach, engaged)"
    by (metis prod.collapse)
  obtain lk cm sh where c: "social_counts rest = (lk, cm, sh)"
    by (metis prod.collapse)
  show "fetched_counts h access_token postId w = social_counts rest"
    using soc by (rule fetched_counts_social)
  note rec = Facebook_getPostMetrics_phases [OF refl f soc [unfolded c]]
  show "sent (snd (Facebook_getPostMetrics h access_token postId w)) =
           sent w
           @ (if str_includes postId ''_''
              then [Facebook_insights_request access_token postId] else [])
           @ [Facebook_social_request access_token postId
                (if str_includes postId ''_'' then fieldsWithShares else fieldsNoShares),
              Facebook_social_request access_token postId fieldsNoShares]"
    unfolding rec by simp
qed

text \<open>
  C6. In the Facebook \<^verbatim>\<open>getPostMetrics\<close>, when the reply \<open>d\<close> to the social sub-query carries an
  error whose message includes \<^verbatim>\<open>nonexisting field\<close>, the call sends that query once more,
  and only once, asking for the reactions and comments summaries and not for \<^verbatim>\<open>shares\<close>.
  The counts it is left with are those of the reply to the retry, or the zero defaults
  when the retry fails in its turn: a record that is returned carries them, and the call
  does return one unless a count of the retry's reply is a value that has no primitive,
  on which the sum of the counts throws a \<open>TypeError\<close>. The provider's error is never what
  the call fails with.
\<close>

theorem Facebook_getPostMetrics_retry:
  assumes "pending w = pre @ Body d # rest" and "length pre = insights_replies postId"
    and "read_prop (parsed d) ''error'' = Some e" and "read_prop e ''message'' = Some (JStr msg)"
    and "str_includes msg ''nonexisting field''"
  shows "sent (snd (Facebook_getPostMetrics h access_token postId w)) =
           sent w
           @ (if str_includes postId ''_'' then
                [\<lparr>verb = ''GET'',
                  target = ''https://graph.facebook.com/v21.0/'' @ postId
                    @ ''/insights?metric=post_impressions,post_impressions_unique,post_engaged_users''
                    @ ''&access_token='' @ access_token,
                  payload = None\<rparr>,
                 \<lparr>verb = ''GET'',
                  target = ''https://graph.facebook.com/v21.0/'' @ postId
                    @ ''?fields=reactions.limit(0).summary(true),comments.limit(0).summary(true),shares''
                    @ ''&access_token='' @ access_token,
                  payload = None\<rparr>]
              else
                [\<lparr>verb = ''GET'',
                  target = ''https://graph.facebook.com/v21.0/'' @ postId
                    @ ''?fields=reactions.limit(0).summary(true),comments.limit(0).summary(true)''
                    @ ''&access_token='' @ access_token,
                  payload = None\<rparr>])
           @ [\<lparr>verb = ''GET'',
               target = ''https://graph.facebook.com/v21.0/'' @ postId
                 @ ''?fields=reactions.limit(0).summary(true),comments.limit(0).summary(true)''
                 @ ''&access_token='' @ access_token,
               payload = None\<rparr>]
       \<and> fetched_counts h access_token postId w = social_counts rest
       \<and> (\<forall>r. fst (Facebook_getPostMetrics h access_token postId w) = Inr r
              \<longrightarrow> (likes r, comments r, shares r) = social_counts rest)
       \<and> (\<forall>x. fst (Facebook_getPostMetrics h access_token postId w) = Inl x \<longrightarrow> x = TypeError)
       \<and> (social_counts rest = (lk, cm, sh) \<and> \<not> hostile lk \<and> \<not> hostile cm \<and> \<not> hostile sh
            \<longrightarrow> (\<exists>r. fst (Facebook_getPostMetrics h access_token postId w) = Inr r))
       \<and> (reply_failed rest
            \<longrightarrow> (\<exists>r. fst (Facebook_getPostMetrics h access_token postId w) = Inr r
                      \<and> likes r = JNum (Num 0) \<and> comments r = JNum (Num 0)
                      \<and> shares r = JNum (Num 0)))"
proof -
  note retried = Facebook_getPostMetrics_retried [OF assms, of h access_token]
  have requests: "sent (snd (Facebook_getPostMetrics h access_token postId w)) =
           sent w
           @ (if str_includes postId ''_'' then
                [\<lparr>verb = ''GET'',
                  target = ''https://graph.facebook.com/v21.0/'' @ postId
                    @ ''/insights?metric=post_impressions,post_impressions_unique,post_engaged_users''
                    @ ''&access_token='' @ access_token,
                  payload = None\<rparr>,
                 \<lparr>verb = ''GET'',
                  target = ''https://graph.facebook.com/v21.0/'' @ postId
                    @ ''?fields=reactions.limit(0).summary(true),comments.limit(0).summary(true),shares''
                    @ ''&access_token='' @ access_token,
                  payload = None\<rparr>]
              else
                [\<lparr>verb = ''GET'',
                  target = ''https://graph.facebook.com/v21.0/'' @ postId
                    @ ''?fields=reactions.limit(0).summary(true),comments.limit(0).summary(true)''
                    @ ''&access_token='' @ access_token,
                  payload = None\<rparr>])
           @ [\<lparr>verb = ''GET'',
               target = ''https://graph.facebook.com/v21.0/'' @ postId
                 @ ''?fields=reactions.limit(0).summary(true),comments.limit(0).summary(true)''
                 @ ''&access_token='' @ access_token,
               payload = None\<rparr>]"
    unfolding retried(2)
    by (simp add: Facebook_insights_request_def Facebook_social_request_def GET_def
        META_API_BASE_def fieldsWithShares_def fieldsNoShares_def)
  have counts: "fetched_counts h access_token postId w = social_counts rest"
    by (rule retried(1))
  have carried: "(likes r, comments r, shares r) = social_counts rest"
    if "fst (Facebook_getPostMetrics h access_token postId w) = Inr r" for r
  proof -
    obtain native reach engaged
      where f: "fetched_insights h access_token postId w = (native, reach, engaged)"
      by (metis prod.collapse)
    from Facebook_getPostMetrics_record(6) [OF that f] counts show ?thesis by simp
  qed
  have error: "x = TypeError"
    if "fst (Facebook_getPostMetrics h access_token postId w) = Inl x" for x
  proof -
    obtain a b c where "fetched_counts h access_token postId w = (a, b, c)"
      by (metis prod.collapse)
    from Facebook_getPostMetrics_fails(3) [OF this that] show ?thesis .
  qed
  have returns: "\<exists>r. fst (Facebook_getPostMetrics h access_token postId w) = Inr r"
    if "social_counts rest = (lk, cm, sh) \<and> \<not> hostile lk \<and> \<not> hostile cm \<and> \<not> hostile sh"
  proof -
    have "fetched_counts h access_token postId w = (lk, cm, sh)" using counts that by simp
    from Facebook_getPostMetrics_fails(2) [OF this] that show ?thesis by blast
  qed
  have zeros: "\<exists>r. fst (Facebook_getPostMetrics h access_token postId w) = Inr r
                  \<and> likes r = JNum (Num 0) \<and> comments r = JNum (Num 0)
                  \<and> shares r = JNum (Num 0)"
    if "reply_failed rest"
  proof -
    have s: "social_counts rest = (JNum (Num 0), JNum (Num 0), JNum (Num 0))"
      using that by (rule social_counts_failed)
    have c: "fetched_counts h access_token postId w = (JNum (Num 0), JNum (Num 0), JNum (Num 0))"
      unfolding counts by (rule s)
    from Facebook_getPostMetrics_fails(2) [OF c]
    obtain r where r: "fst (Facebook_getPostMetrics h access_token postId w) = Inr r" by auto
    from carried [OF r] have "(likes r, comments r, shares r)
        = (JNum (Num 0), JNum (Num 0), JNum (Num 0))"
      unfolding s .
    then show ?thesis using r by simp
  qed
  from requests counts carried error returns zeros show ?thesis by blast
qed

lemma example_retry_counts:
  "social_counts [Body (counts_reply (JNum (Num 3)) (JNum (Num 1)))]
     = (JNum (Num 3), JNum (Num 1), JNum (Num 0))"
  by (simp add: social_counts_def counts_reply_def truthy_def opt_get_def default_to_def
      nearest_Ints)

theorem Facebook_getPostMetrics_retry_witness:
  "sent (snd (Facebook_getPostMetrics example_host ''tok'' ''100_200''
               (replies [Body (insights_reply 500 200 50),
                         Body (error_reply ''(#100) Tried accessing nonexisting field (shares)''),
                         Body (counts_reply (JNum (Num 3)) (JNum (Num 1)))])))
     = [\<lparr>verb = ''GET'',
         target = ''https://graph.facebook.com/v21.0/100_200/insights?metric=post_impressions,post_impressions_unique,post_engaged_users&access_token=tok'',
         payload = None\<rparr>,
        \<lparr>verb = ''GET'',
         target = ''https://graph.facebook.com/v21.0/100_200?fields=reactions.limit(0).summary(true),comments.limit(0).summary(true),shares&access_token=tok'',
         payload = None\<rparr>,
        \<lparr>verb = ''GET'',
         target = ''https://graph.facebook.com/v21.0/100_200?fields=reactions.limit(0).summary(true),comments.limit(0).summary(true)&access_token=tok'',
         payload = None\<rparr>]
   \<and> (\<exists>r. fst (Facebook_getPostMetrics example_host ''tok'' ''100_200''
               (replies [Body (insights_reply 500 200 50),
                         Body (error_reply ''(#100) Tried accessing nonexisting field (shares)''),
                         Body (counts_reply (JNum (Num 3)) (JNum (Num 1)))])) = Inr r
          \<and> (likes r, comments r, shares r) = (JNum (Num 3), JNum (Num 1), JNum (Num 0)))"
proof -
  let ?w = "replies [Body (insights_reply 500 200 50),
                     Body (error_reply ''(#100) Tried accessing nonexisting field (shares)''),
                     Body (counts_reply (JNum (Num 3)) (JNum (Num 1)))]"
  have page: "str_includes ''100_200'' ''_''" by (simp add: startsWith_def)
  have hyps: "pending ?w = [Body (insights_reply 500 200 50)]
                @ Body (error_reply ''(#100) Tried accessing nonexisting field (shares)'')
                # [Body (counts_reply (JNum (Num 3)) (JNum (Num 1)))]"
    "length [Body (insights_reply 500 200 50)] = insights_replies ''100_200''"
    "read_prop (parsed (error_reply ''(#100) Tried accessing nonexisting field (shares)''))
       ''error''
       = Some (JObj [(''message'', JStr ''(#100) Tried accessing nonexisting field (shares)''),
                     (''type'', JStr ''OAuthException'')])"
    "read_prop (JObj [(''message'', JStr ''(#100) Tried accessing nonexisting field (shares)''),
                      (''type'', JStr ''OAuthException'')]) ''message''
       = Some (JStr ''(#100) Tried accessing nonexisting field (shares)'')"
    "str_includes ''(#100) Tried accessing nonexisting field (shares)'' ''nonexisting field''"
    by (simp_all add: replies_def error_reply_def insights_replies_def startsWith_def)
  note retry = Facebook_getPostMetrics_retry
    [OF hyps, where h = example_host and access_token = "''tok''"
       and lk = "JNum (Num 3)" and cm = "JNum (Num 1)" and sh = "JNum (Num 0)"]
  from retry have requests:
    "sent (snd (Facebook_getPostMetrics example_host ''tok'' ''100_200'' ?w))
     = [\<lparr>verb = ''GET'',
         target = ''https://graph.facebook.com/v21.0/100_200/insights?metric=post_impressions,post_impressions_unique,post_engaged_users&access_token=tok'',
         payload = None\<rparr>,
        \<lparr>verb = ''GET'',
         target = ''https://graph.facebook.com/v21.0/100_200?fields=reactions.limit(0).summary(true),comments.limit(0).summary(true),shares&access_token=tok'',
         payload = None\<rparr>,
        \<lparr>verb = ''GET'',
         target = ''https://graph.facebook.com/v21.0/100_200?fields=reactions.limit(0).summary(true),comments.limit(0).summary(true)&access_token=tok'',
         payload = None\<rparr>]"
    using page by (simp add: replies_def)
  from retry example_retry_counts
  obtain r where r: "fst (Facebook_getPostMetrics example_host ''tok'' ''100_200'' ?w) = Inr r"
    by auto
  with retry example_retry_counts
  have "(likes r, comments r, shares r) = (JNum (Num 3), JNum (Num 1), JNum (Num 0))"
    by simp
  with requests r show ?thesis by blast
qed

section \<open>Best-effort metrics\<close>










section \<open>The metrics object of the Instagram adapter\<close>

text \<open>
  Two items named \<^verbatim>\<open>__proto__\<close>. The first value, an object, becomes the prototype of
  \<^verbatim>\<open>metrics\<close>; it has a key \<^verbatim>\<open>__proto__\<close> of its own, so the second assignment finds a data
  property before the accessor and defines an own property: the prototype stays, and
  \<^verbatim>\<open>likes\<close> is read from it.
\<close>

lemma example_prototype:
  "fst (Instagram_getPostMetrics example_host ''tok'' ''1789''
          (replies [Body (JObj [(''data'', JArr
             [insight_item ''__proto__''
                (JObj [(''__proto__'', JNull), (''likes'', JNum (Num 1))]),
              insight_item ''__proto__'' (JObj [(''likes'', JNum (Num 7))])])])]))
     = Inr \<lparr>views = JNum (Num 0), likes = JNum (Num 1), comments = JNum (Num 0),
            shares = JNum (Num 0), saves = JNum (Num 0), watchTimeSeconds = JNum (Num 0),
            avgWatchPercent = JNum (Num 0), reachUnique = JNum (Num 0),
            impressions = JNum (Num 0), engagementRate = JNum (Num 0)\<rparr>"
  by (simp add: Instagram_getPostMetrics_def insight_item_def replies_def run_simps io_unit
      read_defs nearest_Ints)

text \<open>The values of an object come with its array indices first, in ascending order.\<close>

lemma example_values:
  "Object_values (JObj [(''b'', JNum (Num 1)), (''10'', JNum (Num 2)), (''9'', JNum (Num 3)),
                        (''01'', JNum (Num 4))])
     = [JNum (Num 3), JNum (Num 2), JNum (Num 1), JNum (Num 4)]"
  by (simp add: array_index_def index_value_def)

end
